theory Spec2Isabelle
  imports Main
begin

section \<open>Values exchanged with the libraries\<close>

text \<open>
  The client of \<^verbatim>\<open>sftpc.go\<close> talks to three collaborators: the local file system
  (package os), the remote server (package sftp over an ssh connection) and the clock.
  Paths and byte sequences are strings; a connection handle is a number.
\<close>

type_synonym path = string
type_synonym bytes = string
type_synonym handle = nat

text \<open>What \<^verbatim>\<open>os.IsNotExist\<close> and \<^verbatim>\<open>os.IsPermission\<close> can tell about a library error.\<close>

datatype errkind = NotExist | Permission | OtherFailure

text \<open>
  Go error values. \<open>Wrapf msg e\<close> is \<^verbatim>\<open>fmt.Errorf("msg: %w", e)\<close>, \<open>Errorf msg\<close> is
  \<^verbatim>\<open>fmt.Errorf("msg")\<close>; the two messages with other verbs have a constructor each.
\<close>

datatype error =
    LibErr errkind
  | EOF
  | Errorf string
  | Wrapf string error
  | ErrorfAttempts int
  | ErrorfCreateDir path error

text \<open>
  The outcome of a call: a value, a returned error, or a run-time panic (a nil pointer
  dereference), which unwinds through every caller.
\<close>

datatype 'a result = Ok 'a | Err error | Panic

fun IsNotExist :: "error \<Rightarrow> bool" where
  "IsNotExist (LibErr NotExist) = True"
| "IsNotExist _ = False"

fun IsPermission :: "error \<Rightarrow> bool" where
  "IsPermission (LibErr Permission) = True"
| "IsPermission _ = False"

record os_FileInfo =
  fi_Name :: string
  fi_Size :: nat
  fi_IsDir :: bool

datatype signer = Signer bytes "string option"

datatype auth = PasswordAuth string | PublicKeys signer

record ClientConfig =
  cfg_User :: string
  cfg_Auth :: "auth list"
  cfg_Timeout :: nat

text \<open>An open remote file (\<^verbatim>\<open>*sftp.File\<close>) and an open local file (\<^verbatim>\<open>*os.File\<close>).\<close>

record sftp_File =
  rf_client :: handle
  rf_path :: path
  rf_off :: nat

record os_File =
  lf_path :: path
  lf_off :: nat

section \<open>The world outside the client\<close>

text \<open>
  Every call into a library is recorded, in order, in the trace of the world. The
  remote server is a store keyed by the path string exactly as the client sends it;
  the local file system maps paths to file contents. Any library call may fail: the
  fault schedule says, for the n-th call made, whether it fails, with which kind of
  error, and (for a copy) after how many bytes. A call that is not made to fail answers
  from the stores.
\<close>

datatype event =
    OsStat path
  | OsOpen path
  | OsOpenAppend path
  | OsCreate path
  | OsReadFile path
  | OsSeek path nat
  | OsRead path
  | OsWrite path nat
  | OsClose path
  | SftpStat handle path
  | SftpReadDir handle path
  | SftpMkdir handle path
  | SftpRemove handle path
  | SftpRename handle path path
  | SftpRemoveDirectory handle path
  | SftpOpen handle path
  | SftpOpenTrunc handle path
  | SftpCreate handle path
  | SftpSeek path nat
  | SftpRead path
  | SftpWrite path nat
  | SftpFileClose path
  | CopyToRemote path path
  | CopyToLocal path path
  | ParseKey
  | ParseKeyWithPassphrase
  | SshDial string ClientConfig
  | SftpNewClient handle
  | SshClose handle
  | SftpClose handle
  | Sleep nat
  | Visit path os_FileInfo

datatype rnode = RFile bytes | RDir

record world =
  trace :: "event list"
  faults :: "nat \<Rightarrow> (errkind \<times> nat) option"
  localfs :: "path \<Rightarrow> bytes option"
  remotefs :: "(path \<times> rnode) list"
  live :: "handle set"
  next_handle :: handle

definition fault_now :: "world \<Rightarrow> (errkind \<times> nat) option" where
  "fault_now w = faults w (length (trace w))"

definition emit :: "event \<Rightarrow> world \<Rightarrow> world" where
  "emit e w = w\<lparr>trace := trace w @ [e]\<rparr>"

subsection \<open>Strings and paths\<close>

text \<open>\<^verbatim>\<open>strings.Split(s, sep)\<close> for a one-character separator.\<close>

fun split_acc :: "char \<Rightarrow> string \<Rightarrow> string \<Rightarrow> string list" where
  "split_acc sep acc [] = [rev acc]"
| "split_acc sep acc (c # cs) =
     (if c = sep then rev acc # split_acc sep [] cs else split_acc sep (c # acc) cs)"

definition strings_Split :: "string \<Rightarrow> char \<Rightarrow> string list" where
  "strings_Split s sep = split_acc sep [] s"

fun strip_prefix :: "string \<Rightarrow> string \<Rightarrow> string option" where
  "strip_prefix [] s = Some s"
| "strip_prefix (p # ps) [] = None"
| "strip_prefix (p # ps) (c # cs) = (if p = c then strip_prefix ps cs else None)"

definition base_name :: "path \<Rightarrow> string" where
  "base_name p = last (strings_Split p (CHR ''/''))"

subsection \<open>The local file system (package os)\<close>

definition os_Stat :: "path \<Rightarrow> world \<Rightarrow> os_FileInfo result \<times> world" where
  "os_Stat p w =
     (let w1 = emit (OsStat p) w in
      case fault_now w of
        Some (k, n) \<Rightarrow> (Err (LibErr k), w1)
      | None \<Rightarrow>
          (case localfs w p of
             None \<Rightarrow> (Err (LibErr NotExist), w1)
           | Some b \<Rightarrow>
               (Ok \<lparr>fi_Name = base_name p, fi_Size = length b, fi_IsDir = False\<rparr>, w1)))"

definition os_ReadFile :: "path \<Rightarrow> world \<Rightarrow> bytes result \<times> world" where
  "os_ReadFile p w =
     (let w1 = emit (OsReadFile p) w in
      case fault_now w of
        Some (k, n) \<Rightarrow> (Err (LibErr k), w1)
      | None \<Rightarrow>
          (case localfs w p of
             None \<Rightarrow> (Err (LibErr NotExist), w1)
           | Some b \<Rightarrow> (Ok b, w1)))"

definition os_Open :: "path \<Rightarrow> world \<Rightarrow> os_File result \<times> world" where
  "os_Open p w =
     (let w1 = emit (OsOpen p) w in
      case fault_now w of
        Some (k, n) \<Rightarrow> (Err (LibErr k), w1)
      | None \<Rightarrow>
          (case localfs w p of
             None \<Rightarrow> (Err (LibErr NotExist), w1)
           | Some b \<Rightarrow> (Ok \<lparr>lf_path = p, lf_off = 0\<rparr>, w1)))"

text \<open>\<^verbatim>\<open>os.OpenFile(p, os.O_WRONLY|os.O_APPEND, 0644)\<close>: the file must exist.\<close>

definition os_OpenFile_append :: "path \<Rightarrow> world \<Rightarrow> os_File result \<times> world" where
  "os_OpenFile_append p w =
     (let w1 = emit (OsOpenAppend p) w in
      case fault_now w of
        Some (k, n) \<Rightarrow> (Err (LibErr k), w1)
      | None \<Rightarrow>
          (case localfs w p of
             None \<Rightarrow> (Err (LibErr NotExist), w1)
           | Some b \<Rightarrow> (Ok \<lparr>lf_path = p, lf_off = length b\<rparr>, w1)))"

text \<open>\<^verbatim>\<open>os.Create(p)\<close>: creates the file, or truncates the one there.\<close>

definition os_Create :: "path \<Rightarrow> world \<Rightarrow> os_File result \<times> world" where
  "os_Create p w =
     (let w1 = emit (OsCreate p) w in
      case fault_now w of
        Some (k, n) \<Rightarrow> (Err (LibErr k), w1)
      | None \<Rightarrow> (Ok \<lparr>lf_path = p, lf_off = 0\<rparr>, w1\<lparr>localfs := (localfs w1)(p \<mapsto> [])\<rparr>))"

definition os_File_Seek :: "os_File \<Rightarrow> nat \<Rightarrow> world \<Rightarrow> os_File result \<times> world" where
  "os_File_Seek f off w =
     (let w1 = emit (OsSeek (lf_path f) off) w in
      case fault_now w of
        Some (k, n) \<Rightarrow> (Err (LibErr k), w1)
      | None \<Rightarrow> (Ok (f\<lparr>lf_off := off\<rparr>), w1))"

definition os_File_Close :: "os_File \<Rightarrow> world \<Rightarrow> world" where
  "os_File_Close f w = emit (OsClose (lf_path f)) w"

definition local_content :: "world \<Rightarrow> path \<Rightarrow> bytes" where
  "local_content w p = (case localfs w p of None \<Rightarrow> [] | Some b \<Rightarrow> b)"

text \<open>
  \<^verbatim>\<open>f.Read(buffer)\<close>: the bytes read (at most the buffer's length), the error, and the
  file with its offset advanced. At the end of the file it reads nothing and reports
  \<open>EOF\<close>.
\<close>

definition os_File_Read ::
  "os_File \<Rightarrow> nat \<Rightarrow> world \<Rightarrow> bytes \<times> error option \<times> os_File \<times> world" where
  "os_File_Read f n w =
     (let w1 = emit (OsRead (lf_path f)) w in
      case fault_now w of
        Some (k, m) \<Rightarrow> ([], Some (LibErr k), f, w1)
      | None \<Rightarrow>
          (let d = take n (drop (lf_off f) (local_content w (lf_path f))) in
           if d = [] then ([], Some EOF, f, w1)
           else (d, None, f\<lparr>lf_off := lf_off f + length d\<rparr>, w1)))"

text \<open>A write to a local file opened for appending, or just created: at its end.\<close>

definition os_File_Write :: "os_File \<Rightarrow> bytes \<Rightarrow> world \<Rightarrow> unit result \<times> world" where
  "os_File_Write f buf w =
     (let w1 = emit (OsWrite (lf_path f) (length buf)) w in
      case fault_now w of
        Some (k, m) \<Rightarrow> (Err (LibErr k), w1)
      | None \<Rightarrow>
          (Ok (), w1\<lparr>localfs := (localfs w1)(lf_path f \<mapsto> local_content w (lf_path f) @ buf)\<rparr>))"

subsection \<open>The remote store (package sftp)\<close>

fun store_put :: "path \<Rightarrow> rnode \<Rightarrow> (path \<times> rnode) list \<Rightarrow> (path \<times> rnode) list" where
  "store_put p n [] = [(p, n)]"
| "store_put p n ((k, v) # fs) = (if k = p then (p, n) # fs else (k, v) # store_put p n fs)"

definition store_del :: "path \<Rightarrow> (path \<times> rnode) list \<Rightarrow> (path \<times> rnode) list" where
  "store_del p fs = filter (\<lambda>(k, v). k \<noteq> p) fs"

definition node_info :: "string \<Rightarrow> rnode \<Rightarrow> os_FileInfo" where
  "node_info name node =
     \<lparr>fi_Name = name,
      fi_Size = (case node of RFile b \<Rightarrow> length b | RDir \<Rightarrow> 0),
      fi_IsDir = (case node of RFile b \<Rightarrow> False | RDir \<Rightarrow> True)\<rparr>"

text \<open>
  The directory part of a path: what stands before its last separator, empty when it
  has none. A new entry can be made where the directory part is empty (the entry goes
  to the working directory or to the root) or names a directory of the store.
\<close>

definition parent_dir :: "path \<Rightarrow> path" where
  "parent_dir p = rev (drop 1 (dropWhile (\<lambda>c. c \<noteq> CHR ''/'') (rev p)))"

definition parent_error :: "(path \<times> rnode) list \<Rightarrow> path \<Rightarrow> errkind option" where
  "parent_error fs p =
     (if parent_dir p = [] then None
      else (case map_of fs (parent_dir p) of
              None \<Rightarrow> Some NotExist
            | Some (RFile b) \<Rightarrow> Some OtherFailure
            | Some RDir \<Rightarrow> None))"

text \<open>The entries of directory \<open>p\<close>: the keys \<open>p/name\<close> with no further separator.\<close>

definition child_entry :: "path \<Rightarrow> path \<times> rnode \<Rightarrow> os_FileInfo list" where
  "child_entry p kv =
     (case strip_prefix (p @ ''/'') (fst kv) of
        None \<Rightarrow> []
      | Some name \<Rightarrow>
          (if name \<noteq> [] \<and> CHR ''/'' \<notin> set name then [node_info name (snd kv)] else []))"

definition children :: "(path \<times> rnode) list \<Rightarrow> path \<Rightarrow> os_FileInfo list" where
  "children fs p = concat (map (child_entry p) fs)"

text \<open>
  A call through the protocol handle \<^verbatim>\<open>client.sftpClient\<close>. A nil handle panics before
  anything is sent; a closed handle, or a scheduled fault, makes the call fail; otherwise
  the call answers from the store.
\<close>

definition sftp_call ::
  "handle option \<Rightarrow> (handle \<Rightarrow> event) \<Rightarrow> (handle \<Rightarrow> world \<Rightarrow> 'a result \<times> world) \<Rightarrow>
     world \<Rightarrow> 'a result \<times> world" where
  "sftp_call ho ev answer w =
     (case ho of
        None \<Rightarrow> (Panic, w)
      | Some h \<Rightarrow>
          (let w1 = emit (ev h) w in
           if h \<notin> live w then (Err (LibErr OtherFailure), w1)
           else (case fault_now w of
                   Some (k, n) \<Rightarrow> (Err (LibErr k), w1)
                 | None \<Rightarrow> answer h w1)))"

definition sftp_Stat :: "handle option \<Rightarrow> path \<Rightarrow> world \<Rightarrow> os_FileInfo result \<times> world" where
  "sftp_Stat ho p w =
     sftp_call ho (\<lambda>h. SftpStat h p)
       (\<lambda>h w1. case map_of (remotefs w1) p of
                None \<Rightarrow> (Err (LibErr NotExist), w1)
              | Some node \<Rightarrow> (Ok (node_info (base_name p) node), w1)) w"

definition sftp_ReadDir :: "handle option \<Rightarrow> path \<Rightarrow> world \<Rightarrow> os_FileInfo list result \<times> world" where
  "sftp_ReadDir ho p w =
     sftp_call ho (\<lambda>h. SftpReadDir h p)
       (\<lambda>h w1. case map_of (remotefs w1) p of
                None \<Rightarrow> (Err (LibErr NotExist), w1)
              | Some (RFile b) \<Rightarrow> (Err (LibErr OtherFailure), w1)
              | Some RDir \<Rightarrow> (Ok (children (remotefs w1) p), w1)) w"

text \<open>
  Mkdir fails on a path that is present, and on one whose directory part is missing or
  is a regular file.
\<close>

definition sftp_Mkdir :: "handle option \<Rightarrow> path \<Rightarrow> world \<Rightarrow> unit result \<times> world" where
  "sftp_Mkdir ho p w =
     sftp_call ho (\<lambda>h. SftpMkdir h p)
       (\<lambda>h w1. case map_of (remotefs w1) p of
                Some node \<Rightarrow> (Err (LibErr OtherFailure), w1)
              | None \<Rightarrow>
                  (case parent_error (remotefs w1) p of
                     Some k \<Rightarrow> (Err (LibErr k), w1)
                   | None \<Rightarrow> (Ok (), w1\<lparr>remotefs := store_put p RDir (remotefs w1)\<rparr>))) w"

definition sftp_Remove :: "handle option \<Rightarrow> path \<Rightarrow> world \<Rightarrow> unit result \<times> world" where
  "sftp_Remove ho p w =
     sftp_call ho (\<lambda>h. SftpRemove h p)
       (\<lambda>h w1. case map_of (remotefs w1) p of
                None \<Rightarrow> (Err (LibErr NotExist), w1)
              | Some node \<Rightarrow>
                  (if children (remotefs w1) p = []
                   then (Ok (), w1\<lparr>remotefs := store_del p (remotefs w1)\<rparr>)
                   else (Err (LibErr OtherFailure), w1))) w"

definition sftp_RemoveDirectory :: "handle option \<Rightarrow> path \<Rightarrow> world \<Rightarrow> unit result \<times> world" where
  "sftp_RemoveDirectory ho p w =
     sftp_call ho (\<lambda>h. SftpRemoveDirectory h p)
       (\<lambda>h w1. case map_of (remotefs w1) p of
                None \<Rightarrow> (Err (LibErr NotExist), w1)
              | Some (RFile b) \<Rightarrow> (Err (LibErr OtherFailure), w1)
              | Some RDir \<Rightarrow>
                  (if children (remotefs w1) p = []
                   then (Ok (), w1\<lparr>remotefs := store_del p (remotefs w1)\<rparr>)
                   else (Err (LibErr OtherFailure), w1))) w"

text \<open>Renaming moves the entry and, for a directory, everything below it.\<close>

definition rename_key :: "path \<Rightarrow> path \<Rightarrow> path \<Rightarrow> path" where
  "rename_key old new k =
     (if k = old then new
      else (case strip_prefix (old @ ''/'') k of
              None \<Rightarrow> k
            | Some rest \<Rightarrow> new @ ''/'' @ rest))"

definition sftp_Rename :: "handle option \<Rightarrow> path \<Rightarrow> path \<Rightarrow> world \<Rightarrow> unit result \<times> world" where
  "sftp_Rename ho old new w =
     sftp_call ho (\<lambda>h. SftpRename h old new)
       (\<lambda>h w1. case map_of (remotefs w1) old of
                None \<Rightarrow> (Err (LibErr NotExist), w1)
              | Some node \<Rightarrow>
                  (case map_of (remotefs w1) new of
                     Some other \<Rightarrow> (Err (LibErr OtherFailure), w1)
                   | None \<Rightarrow>
                       (Ok (), w1\<lparr>remotefs :=
                                 map (\<lambda>(k, v). (rename_key old new k, v)) (remotefs w1)\<rparr>))) w"

definition sftp_Open :: "handle option \<Rightarrow> path \<Rightarrow> world \<Rightarrow> sftp_File result \<times> world" where
  "sftp_Open ho p w =
     sftp_call ho (\<lambda>h. SftpOpen h p)
       (\<lambda>h w1. case map_of (remotefs w1) p of
                None \<Rightarrow> (Err (LibErr NotExist), w1)
              | Some RDir \<Rightarrow> (Err (LibErr OtherFailure), w1)
              | Some (RFile b) \<Rightarrow>
                  (Ok \<lparr>rf_client = h, rf_path = p, rf_off = 0\<rparr>, w1)) w"

text \<open>
  Opening for writing with \<^verbatim>\<open>O_CREATE|O_TRUNC\<close>: the remote file is emptied when it is
  there, and created when it is not and its directory part allows it. \<^verbatim>\<open>OpenFile(p, os.O_WRONLY|os.O_CREATE|os.O_TRUNC)\<close> and
  \<^verbatim>\<open>Create(p)\<close> differ in the access mode only.
\<close>

definition open_truncating :: "path \<Rightarrow> handle \<Rightarrow> world \<Rightarrow> sftp_File result \<times> world" where
  "open_truncating p h w1 =
     (case map_of (remotefs w1) p of
        Some RDir \<Rightarrow> (Err (LibErr OtherFailure), w1)
      | Some (RFile b) \<Rightarrow>
          (Ok \<lparr>rf_client = h, rf_path = p, rf_off = 0\<rparr>,
           w1\<lparr>remotefs := store_put p (RFile []) (remotefs w1)\<rparr>)
      | None \<Rightarrow>
          (case parent_error (remotefs w1) p of
             Some k \<Rightarrow> (Err (LibErr k), w1)
           | None \<Rightarrow>
               (Ok \<lparr>rf_client = h, rf_path = p, rf_off = 0\<rparr>,
                w1\<lparr>remotefs := store_put p (RFile []) (remotefs w1)\<rparr>)))"

definition sftp_OpenFile_trunc :: "handle option \<Rightarrow> path \<Rightarrow> world \<Rightarrow> sftp_File result \<times> world" where
  "sftp_OpenFile_trunc ho p w = sftp_call ho (\<lambda>h. SftpOpenTrunc h p) (open_truncating p) w"

definition sftp_Create :: "handle option \<Rightarrow> path \<Rightarrow> world \<Rightarrow> sftp_File result \<times> world" where
  "sftp_Create ho p w = sftp_call ho (\<lambda>h. SftpCreate h p) (open_truncating p) w"

subsection \<open>Open remote files\<close>

definition remote_content :: "world \<Rightarrow> path \<Rightarrow> bytes option" where
  "remote_content w p = (case map_of (remotefs w) p of Some (RFile b) \<Rightarrow> Some b | _ \<Rightarrow> None)"

text \<open>Writing \<open>d\<close> at offset \<open>off\<close> into a file holding \<open>old\<close>.\<close>

definition write_at :: "nat \<Rightarrow> bytes \<Rightarrow> bytes \<Rightarrow> bytes" where
  "write_at off d old =
     take off old @ replicate (off - length old) (CHR 0x00) @ d @ drop (off + length d) old"

definition sftp_File_Seek :: "sftp_File \<Rightarrow> nat \<Rightarrow> world \<Rightarrow> sftp_File result \<times> world" where
  "sftp_File_Seek f off w =
     (let w1 = emit (SftpSeek (rf_path f) off) w in
      case fault_now w of
        Some (k, n) \<Rightarrow> (Err (LibErr k), w1)
      | None \<Rightarrow> (Ok (f\<lparr>rf_off := off\<rparr>), w1))"

definition sftp_File_Close :: "sftp_File \<Rightarrow> world \<Rightarrow> world" where
  "sftp_File_Close f w = emit (SftpFileClose (rf_path f)) w"

definition sftp_File_Read ::
  "sftp_File \<Rightarrow> nat \<Rightarrow> world \<Rightarrow> bytes \<times> error option \<times> sftp_File \<times> world" where
  "sftp_File_Read f n w =
     (let w1 = emit (SftpRead (rf_path f)) w in
      if rf_client f \<notin> live w then ([], Some (LibErr OtherFailure), f, w1)
      else
        (case fault_now w of
           Some (k, m) \<Rightarrow> ([], Some (LibErr k), f, w1)
         | None \<Rightarrow>
             (case remote_content w (rf_path f) of
                None \<Rightarrow> ([], Some (LibErr OtherFailure), f, w1)
              | Some b \<Rightarrow>
                  (let d = take n (drop (rf_off f) b) in
                   if d = [] then ([], Some EOF, f, w1)
                   else (d, None, f\<lparr>rf_off := rf_off f + length d\<rparr>, w1)))))"

definition sftp_File_Write :: "sftp_File \<Rightarrow> bytes \<Rightarrow> world \<Rightarrow> sftp_File result \<times> world" where
  "sftp_File_Write f buf w =
     (let w1 = emit (SftpWrite (rf_path f) (length buf)) w in
      if rf_client f \<notin> live w then (Err (LibErr OtherFailure), w1)
      else
        (case fault_now w of
           Some (k, m) \<Rightarrow> (Err (LibErr k), w1)
         | None \<Rightarrow>
             (case remote_content w (rf_path f) of
                None \<Rightarrow> (Err (LibErr OtherFailure), w1)
              | Some old \<Rightarrow>
                  (Ok (f\<lparr>rf_off := rf_off f + length buf\<rparr>),
                   w1\<lparr>remotefs :=
                        store_put (rf_path f) (RFile (write_at (rf_off f) buf old)) (remotefs w1)\<rparr>))))"

subsection \<open>io.Copy\<close>

text \<open>
  \<^verbatim>\<open>io.Copy(dst, src)\<close> moves everything from the source's offset to its end. A scheduled
  fault \<open>(k, n)\<close> lets \<open>n\<close> bytes through and then fails; both offsets advance by what
  was moved.
\<close>

definition io_Copy_to_remote ::
  "sftp_File \<Rightarrow> os_File \<Rightarrow> world \<Rightarrow> nat result \<times> sftp_File \<times> os_File \<times> world" where
  "io_Copy_to_remote dst src w =
     (let w1 = emit (CopyToRemote (lf_path src) (rf_path dst)) w;
          avail = drop (lf_off src) (local_content w (lf_path src)) in
      if rf_client dst \<notin> live w then (Err (LibErr OtherFailure), dst, src, w1)
      else
        (case remote_content w (rf_path dst) of
           None \<Rightarrow> (Err (LibErr OtherFailure), dst, src, w1)
         | Some old \<Rightarrow>
             (let d = (case fault_now w of Some (k, n) \<Rightarrow> take n avail | None \<Rightarrow> avail);
                  w2 = w1\<lparr>remotefs :=
                            store_put (rf_path dst) (RFile (write_at (rf_off dst) d old)) (remotefs w1)\<rparr>;
                  dst1 = dst\<lparr>rf_off := rf_off dst + length d\<rparr>;
                  src1 = src\<lparr>lf_off := lf_off src + length d\<rparr> in
              case fault_now w of
                Some (k, n) \<Rightarrow> (Err (LibErr k), dst1, src1, w2)
              | None \<Rightarrow> (Ok (length d), dst1, src1, w2))))"

definition io_Copy_to_local ::
  "os_File \<Rightarrow> sftp_File \<Rightarrow> world \<Rightarrow> nat result \<times> os_File \<times> sftp_File \<times> world" where
  "io_Copy_to_local dst src w =
     (let w1 = emit (CopyToLocal (rf_path src) (lf_path dst)) w in
      if rf_client src \<notin> live w then (Err (LibErr OtherFailure), dst, src, w1)
      else
        (case remote_content w (rf_path src) of
           None \<Rightarrow> (Err (LibErr OtherFailure), dst, src, w1)
         | Some b \<Rightarrow>
             (let avail = drop (rf_off src) b;
                  d = (case fault_now w of Some (k, n) \<Rightarrow> take n avail | None \<Rightarrow> avail);
                  w2 = w1\<lparr>localfs := (localfs w1)(lf_path dst \<mapsto> local_content w (lf_path dst) @ d)\<rparr>;
                  dst1 = dst\<lparr>lf_off := lf_off dst + length d\<rparr>;
                  src1 = src\<lparr>rf_off := rf_off src + length d\<rparr> in
              case fault_now w of
                Some (k, n) \<Rightarrow> (Err (LibErr k), dst1, src1, w2)
              | None \<Rightarrow> (Ok (length d), dst1, src1, w2))))"

subsection \<open>Connections (packages ssh and sftp) and the clock\<close>

definition sftp_Client_Close :: "handle \<Rightarrow> world \<Rightarrow> world" where
  "sftp_Client_Close h w = emit (SftpClose h) (w\<lparr>live := live w - {h}\<rparr>)"

definition ssh_Client_Close :: "handle \<Rightarrow> world \<Rightarrow> world" where
  "ssh_Client_Close h w = emit (SshClose h) (w\<lparr>live := live w - {h}\<rparr>)"

definition ssh_ParsePrivateKey :: "bytes \<Rightarrow> world \<Rightarrow> signer result \<times> world" where
  "ssh_ParsePrivateKey key w =
     (let w1 = emit ParseKey w in
      case fault_now w of
        Some (k, n) \<Rightarrow> (Err (LibErr k), w1)
      | None \<Rightarrow> (Ok (Signer key None), w1))"

definition ssh_ParsePrivateKeyWithPassphrase ::
  "bytes \<Rightarrow> string \<Rightarrow> world \<Rightarrow> signer result \<times> world" where
  "ssh_ParsePrivateKeyWithPassphrase key pass w =
     (let w1 = emit ParseKeyWithPassphrase w in
      case fault_now w of
        Some (k, n) \<Rightarrow> (Err (LibErr k), w1)
      | None \<Rightarrow> (Ok (Signer key (Some pass)), w1))"

text \<open>A successful dial, or a new protocol client, is a fresh live handle.\<close>

definition new_handle :: "world \<Rightarrow> handle result \<times> world" where
  "new_handle w =
     (Ok (next_handle w),
      w\<lparr>live := insert (next_handle w) (live w), next_handle := Suc (next_handle w)\<rparr>)"

definition ssh_Dial :: "string \<Rightarrow> ClientConfig \<Rightarrow> world \<Rightarrow> handle result \<times> world" where
  "ssh_Dial addr cfg w =
     (let w1 = emit (SshDial addr cfg) w in
      case fault_now w of
        Some (k, n) \<Rightarrow> (Err (LibErr k), w1)
      | None \<Rightarrow> new_handle w1)"

definition sftp_NewClient :: "handle \<Rightarrow> world \<Rightarrow> handle result \<times> world" where
  "sftp_NewClient conn w =
     (let w1 = emit (SftpNewClient conn) w in
      if conn \<notin> live w then (Err (LibErr OtherFailure), w1)
      else
        (case fault_now w of
           Some (k, n) \<Rightarrow> (Err (LibErr k), w1)
         | None \<Rightarrow> new_handle w1))"

definition time_Sleep :: "nat \<Rightarrow> world \<Rightarrow> world" where
  "time_Sleep seconds w = emit (Sleep seconds) w"

section \<open>The client\<close>

record SFTPClientParams =
  host :: string
  port :: string
  user :: string
  password :: string
  privateKeyPath :: string
  privateKeyB64 :: bytes

text \<open>
  The struct \<^verbatim>\<open>SFTPClient\<close>; each of its three pointers may be nil. A method's receiver
  \<^verbatim>\<open>client\<close> is itself a pointer: \<open>None\<close> is the nil client. Methods that assign to the
  struct return it updated.
\<close>

record SFTPClient =
  params :: "SFTPClientParams option"
  sshClient :: "handle option"
  sftpClient :: "handle option"

subsection \<open>Session manager\<close>

text \<open>
  The passphrase branch, written twice in ReConnect (for a key file and for inline key
  bytes).
\<close>

definition parse_signer :: "SFTPClientParams \<Rightarrow> bytes \<Rightarrow> world \<Rightarrow> signer result \<times> world" where
  "parse_signer p key w =
     (if password p \<noteq> [] then
        (case ssh_ParsePrivateKeyWithPassphrase key (password p) w of
           (Err e, w1) \<Rightarrow> (Err (Wrapf ''failed to parse private key with passphrase'' e), w1)
         | (Ok sg, w1) \<Rightarrow> (Ok sg, w1)
         | (Panic, w1) \<Rightarrow> (Panic, w1))
      else
        (case ssh_ParsePrivateKey key w of
           (Err e, w1) \<Rightarrow> (Err (Wrapf ''failed to parse private key'' e), w1)
         | (Ok sg, w1) \<Rightarrow> (Ok sg, w1)
         | (Panic, w1) \<Rightarrow> (Panic, w1)))"

definition auth_methods :: "SFTPClientParams \<Rightarrow> world \<Rightarrow> auth list result \<times> world" where
  "auth_methods p w =
     (let authMethods = (if password p \<noteq> [] then [PasswordAuth (password p)] else []) in
      if privateKeyPath p \<noteq> [] then
        (case os_ReadFile (privateKeyPath p) w of
           (Err e, w1) \<Rightarrow> (Err (Wrapf ''failed to read private key'' e), w1)
         | (Panic, w1) \<Rightarrow> (Panic, w1)
         | (Ok key, w1) \<Rightarrow>
             (case parse_signer p key w1 of
                (Err e, w2) \<Rightarrow> (Err e, w2)
              | (Panic, w2) \<Rightarrow> (Panic, w2)
              | (Ok signerIn, w2) \<Rightarrow> (Ok (authMethods @ [PublicKeys signerIn]), w2)))
      else if length (privateKeyB64 p) > 0 then
        (case parse_signer p (privateKeyB64 p) w of
           (Err e, w2) \<Rightarrow> (Err e, w2)
         | (Panic, w2) \<Rightarrow> (Panic, w2)
         | (Ok signerIn, w2) \<Rightarrow> (Ok (authMethods @ [PublicKeys signerIn]), w2))
      else (Ok authMethods, w))"

definition close_previous :: "SFTPClient \<Rightarrow> world \<Rightarrow> world" where
  "close_previous c w =
     (let w1 = (case sftpClient c of Some h \<Rightarrow> sftp_Client_Close h w | None \<Rightarrow> w) in
      case sshClient c of Some h \<Rightarrow> ssh_Client_Close h w1 | None \<Rightarrow> w1)"

definition ReConnect :: "SFTPClient option \<Rightarrow> world \<Rightarrow> unit result \<times> SFTPClient option \<times> world" where
  "ReConnect client w =
     (case client of
        None \<Rightarrow> (Panic, client, w)
      | Some c \<Rightarrow>
          (let w1 = close_previous c w in
           case params c of
             None \<Rightarrow> (Panic, client, w1)
           | Some p \<Rightarrow>
               (case auth_methods p w1 of
                  (Err e, w2) \<Rightarrow> (Err e, client, w2)
                | (Panic, w2) \<Rightarrow> (Panic, client, w2)
                | (Ok authMethods, w2) \<Rightarrow>
                    (let sshConfig = \<lparr>cfg_User = user p, cfg_Auth = authMethods, cfg_Timeout = 180\<rparr>;
                         addr = host p @ '':'' @ port p in
                     case ssh_Dial addr sshConfig w2 of
                       (Err e, w3) \<Rightarrow> (Err (Wrapf ''failed to dial'' e), client, w3)
                     | (Panic, w3) \<Rightarrow> (Panic, client, w3)
                     | (Ok conn, w3) \<Rightarrow>
                         (case sftp_NewClient conn w3 of
                            (Err e, w4) \<Rightarrow>
                              (Err (Wrapf ''failed to create SFTP client'' e), client,
                               ssh_Client_Close conn w4)
                          | (Panic, w4) \<Rightarrow> (Panic, client, w4)
                          | (Ok sc, w4) \<Rightarrow>
                              (Ok (), Some (c\<lparr>sshClient := Some conn, sftpClient := Some sc\<rparr>),
                               w4))))))"

text \<open>The liveness probe: list the current directory.\<close>

definition isConnected :: "SFTPClient option \<Rightarrow> world \<Rightarrow> bool \<times> world" where
  "isConnected client w =
     (case client of
        None \<Rightarrow> (False, w)
      | Some c \<Rightarrow>
          (if sftpClient c = None \<or> sshClient c = None then (False, w)
           else (case sftp_ReadDir (sftpClient c) ''.'' w of
                   (Ok files, w1) \<Rightarrow> (True, w1)
                 | (Err e, w1) \<Rightarrow> (False, w1)
                 | (Panic, w1) \<Rightarrow> (False, w1))))"

definition ensureConnected :: "SFTPClient option \<Rightarrow> world \<Rightarrow> unit result \<times> SFTPClient option \<times> world" where
  "ensureConnected client w =
     (case isConnected client w of
        (True, w1) \<Rightarrow> (Ok (), client, w1)
      | (False, w1) \<Rightarrow> ReConnect client w1)"

function ensureConnectedWithRetries_loop ::
  "SFTPClient option \<Rightarrow> int \<Rightarrow> int \<Rightarrow> world \<Rightarrow> unit result \<times> SFTPClient option \<times> world" where
  "ensureConnectedWithRetries_loop client retries i w =
     (if i < retries then
        (case ensureConnected client w of
           (Ok u, client1, w1) \<Rightarrow> (Ok (), client1, w1)
         | (Panic, client1, w1) \<Rightarrow> (Panic, client1, w1)
         | (Err e, client1, w1) \<Rightarrow>
             ensureConnectedWithRetries_loop client1 retries (i + 1) (time_Sleep 2 w1))
      else (Err (ErrorfAttempts retries), client, w))"
  by pat_completeness auto
termination
  by (relation "measure (\<lambda>(client, retries, i, w). nat (retries - i))") auto

definition ensureConnectedWithRetries ::
  "SFTPClient option \<Rightarrow> int \<Rightarrow> world \<Rightarrow> unit result \<times> SFTPClient option \<times> world" where
  "ensureConnectedWithRetries client retries w = ensureConnectedWithRetries_loop client retries 0 w"

subsection \<open>Remote file-system operations\<close>

text \<open>The protocol handle of a client pointer; reading it through a nil client is nil here
  and panics at the call, as the dereference would.\<close>

definition handle_of :: "SFTPClient option \<Rightarrow> handle option" where
  "handle_of client = (case client of None \<Rightarrow> None | Some c \<Rightarrow> sftpClient c)"

definition RemoveFile :: "SFTPClient option \<Rightarrow> path \<Rightarrow> world \<Rightarrow> unit result \<times> world" where
  "RemoveFile client remotePath w =
     (case client of
        None \<Rightarrow> (Err (Errorf ''SFTPClient is nil''), w)
      | Some c \<Rightarrow>
          (case sftp_Remove (sftpClient c) remotePath w of
             (Err e, w1) \<Rightarrow> (Err (Wrapf ''failed to remove remote file'' e), w1)
           | (Panic, w1) \<Rightarrow> (Panic, w1)
           | (Ok u, w1) \<Rightarrow> (Ok (), w1)))"

definition MoveFile :: "SFTPClient option \<Rightarrow> path \<Rightarrow> path \<Rightarrow> world \<Rightarrow> unit result \<times> world" where
  "MoveFile client oldPath newPath w =
     (case client of
        None \<Rightarrow> (Err (Errorf ''SFTPClient is nil''), w)
      | Some c \<Rightarrow>
          (case sftp_Rename (sftpClient c) oldPath newPath w of
             (Err e, w1) \<Rightarrow> (Err (Wrapf ''failed to move remote file'' e), w1)
           | (Panic, w1) \<Rightarrow> (Panic, w1)
           | (Ok u, w1) \<Rightarrow> (Ok (), w1)))"

definition List :: "SFTPClient option \<Rightarrow> path \<Rightarrow> world \<Rightarrow> os_FileInfo list result \<times> world" where
  "List client remotePath w =
     (case client of
        None \<Rightarrow> (Err (Errorf ''SFTPClient is nil''), w)
      | Some c \<Rightarrow>
          (case sftp_ReadDir (sftpClient c) remotePath w of
             (Err e, w1) \<Rightarrow> (Err (Wrapf ''failed to list directory'' e), w1)
           | (Panic, w1) \<Rightarrow> (Panic, w1)
           | (Ok files, w1) \<Rightarrow> (Ok files, w1)))"

definition MakeDir :: "SFTPClient option \<Rightarrow> path \<Rightarrow> world \<Rightarrow> unit result \<times> world" where
  "MakeDir client remotePath w =
     (case client of
        None \<Rightarrow> (Err (Errorf ''SFTPClient is nil''), w)
      | Some c \<Rightarrow>
          (case sftp_Mkdir (sftpClient c) remotePath w of
             (Err e, w1) \<Rightarrow> (Err (Wrapf ''failed to create directory'' e), w1)
           | (Panic, w1) \<Rightarrow> (Panic, w1)
           | (Ok u, w1) \<Rightarrow> (Ok (), w1)))"

definition RemoveDir :: "SFTPClient option \<Rightarrow> path \<Rightarrow> world \<Rightarrow> unit result \<times> world" where
  "RemoveDir client remotePath w =
     (case client of
        None \<Rightarrow> (Err (Errorf ''SFTPClient is nil''), w)
      | Some c \<Rightarrow>
          (case sftp_RemoveDirectory (sftpClient c) remotePath w of
             (Err e, w1) \<Rightarrow> (Err (Wrapf ''failed to remove directory'' e), w1)
           | (Panic, w1) \<Rightarrow> (Panic, w1)
           | (Ok u, w1) \<Rightarrow> (Ok (), w1)))"

definition MoveDir :: "SFTPClient option \<Rightarrow> path \<Rightarrow> path \<Rightarrow> world \<Rightarrow> unit result \<times> world" where
  "MoveDir client oldPath newPath w =
     (case client of
        None \<Rightarrow> (Err (Errorf ''SFTPClient is nil''), w)
      | Some c \<Rightarrow>
          (case sftp_Rename (sftpClient c) oldPath newPath w of
             (Err e, w1) \<Rightarrow> (Err (Wrapf ''failed to move directory'' e), w1)
           | (Panic, w1) \<Rightarrow> (Panic, w1)
           | (Ok u, w1) \<Rightarrow> (Ok (), w1)))"

definition ListDirs :: "SFTPClient option \<Rightarrow> path \<Rightarrow> world \<Rightarrow> os_FileInfo list result \<times> world" where
  "ListDirs client remotePath w =
     (case client of
        None \<Rightarrow> (Err (Errorf ''SFTPClient is nil''), w)
      | Some c \<Rightarrow>
          (case sftp_ReadDir (sftpClient c) remotePath w of
             (Err e, w1) \<Rightarrow> (Err (Wrapf ''failed to list directory'' e), w1)
           | (Panic, w1) \<Rightarrow> (Panic, w1)
           | (Ok dirs, w1) \<Rightarrow> (Ok (filter (\<lambda>dir. fi_IsDir dir) dirs), w1)))"

definition ListFiles :: "SFTPClient option \<Rightarrow> path \<Rightarrow> world \<Rightarrow> os_FileInfo list result \<times> world" where
  "ListFiles client remotePath w =
     (case client of
        None \<Rightarrow> (Err (Errorf ''SFTPClient is nil''), w)
      | Some c \<Rightarrow>
          (case sftp_ReadDir (sftpClient c) remotePath w of
             (Err e, w1) \<Rightarrow> (Err (Wrapf ''failed to list directory'' e), w1)
           | (Panic, w1) \<Rightarrow> (Panic, w1)
           | (Ok files, w1) \<Rightarrow> (Ok (filter (\<lambda>file. \<not> fi_IsDir file) files), w1)))"

definition ListFilesAndFolders ::
  "SFTPClient option \<Rightarrow> path \<Rightarrow> world \<Rightarrow> os_FileInfo list result \<times> world" where
  "ListFilesAndFolders client remotePath w =
     (case client of
        None \<Rightarrow> (Err (Errorf ''SFTPClient is nil''), w)
      | Some c \<Rightarrow>
          (case sftp_ReadDir (sftpClient c) remotePath w of
             (Err e, w1) \<Rightarrow> (Err (Wrapf ''failed to list directory'' e), w1)
           | (Panic, w1) \<Rightarrow> (Panic, w1)
           | (Ok files, w1) \<Rightarrow> (Ok files, w1)))"

definition FileInfo :: "SFTPClient option \<Rightarrow> path \<Rightarrow> world \<Rightarrow> os_FileInfo result \<times> world" where
  "FileInfo client filePath w =
     (case client of
        None \<Rightarrow> (Err (Errorf ''SFTPClient is nil''), w)
      | Some c \<Rightarrow>
          (case sftp_Stat (sftpClient c) filePath w of
             (Err e, w1) \<Rightarrow> (Err (Wrapf ''failed to get file info'' e), w1)
           | (Panic, w1) \<Rightarrow> (Panic, w1)
           | (Ok fileInfo, w1) \<Rightarrow> (Ok fileInfo, w1)))"

text \<open>
  FolderExists and FileExists return a boolean and no error; the result type still has
  to carry the panic of a nil protocol handle.
\<close>

definition FolderExists :: "SFTPClient option \<Rightarrow> path \<Rightarrow> world \<Rightarrow> bool result \<times> world" where
  "FolderExists client remotePath w =
     (case client of
        None \<Rightarrow> (Ok False, w)
      | Some c \<Rightarrow>
          (case sftp_Stat (sftpClient c) remotePath w of
             (Err e, w1) \<Rightarrow> (Ok False, w1)
           | (Panic, w1) \<Rightarrow> (Panic, w1)
           | (Ok info, w1) \<Rightarrow> (Ok True, w1)))"

definition FileExists :: "SFTPClient option \<Rightarrow> path \<Rightarrow> world \<Rightarrow> bool result \<times> world" where
  "FileExists client remotePath w =
     (case client of
        None \<Rightarrow> (Ok False, w)
      | Some c \<Rightarrow>
          (case sftp_Stat (sftpClient c) remotePath w of
             (Err e, w1) \<Rightarrow> (Ok False, w1)
           | (Panic, w1) \<Rightarrow> (Panic, w1)
           | (Ok info, w1) \<Rightarrow> (Ok True, w1)))"

subsection \<open>CreateRemoteDirRecursive\<close>

text \<open>
  \<^verbatim>\<open>filepath.Separator\<close> and \<^verbatim>\<open>filepath.Join\<close> on a system whose separator is the
  slash. Join puts the separator between its non-empty arguments and cleans the result
  as \<^verbatim>\<open>filepath.Clean\<close> does: empty and \<open>.\<close> elements go, a \<open>..\<close> element removes the
  element before it (at the root it just goes), and the empty result is \<open>.\<close>.
\<close>

definition filepath_Separator :: char where
  "filepath_Separator = CHR ''/''"

fun join_with :: "string \<Rightarrow> string list \<Rightarrow> string" where
  "join_with sep [] = []"
| "join_with sep [x] = x"
| "join_with sep (x # y # ys) = x @ sep @ join_with sep (y # ys)"

definition clean_step :: "bool \<Rightarrow> string list \<Rightarrow> string \<Rightarrow> string list" where
  "clean_step rooted stack el =
     (if el = [] \<or> el = ''.'' then stack
      else if el = ''..'' then
        (case stack of
           [] \<Rightarrow> (if rooted then [] else [el])
         | prev # rest \<Rightarrow> (if prev = ''..'' then el # stack else rest))
      else el # stack)"

definition filepath_Clean :: "path \<Rightarrow> path" where
  "filepath_Clean p =
     (let rooted = (case p of [] \<Rightarrow> False | c # cs \<Rightarrow> c = filepath_Separator);
          stack = foldl (clean_step rooted) [] (strings_Split p filepath_Separator);
          body = join_with [filepath_Separator] (rev stack);
          out = (if rooted then filepath_Separator # body else body)
      in if out = [] then ''.'' else out)"

definition filepath_Join :: "path \<Rightarrow> path \<Rightarrow> path" where
  "filepath_Join a b =
     (let elems = filter (\<lambda>e. e \<noteq> []) [a, b] in
      if elems = [] then [] else filepath_Clean (join_with [filepath_Separator] elems))"

fun CreateRemoteDirRecursive_loop ::
  "SFTPClient option \<Rightarrow> string list \<Rightarrow> path \<Rightarrow> world \<Rightarrow> unit result \<times> world" where
  "CreateRemoteDirRecursive_loop client [] currentPath w = (Ok (), w)"
| "CreateRemoteDirRecursive_loop client (dir # dirs) currentPath w =
     (if dir = [] then CreateRemoteDirRecursive_loop client dirs currentPath w
      else
        (let currentPath1 = (if currentPath = [] then dir else filepath_Join currentPath dir) in
         case FolderExists client currentPath1 w of
           (Panic, w1) \<Rightarrow> (Panic, w1)
         | (Err e, w1) \<Rightarrow> (Err e, w1)
         | (Ok True, w1) \<Rightarrow> CreateRemoteDirRecursive_loop client dirs currentPath1 w1
         | (Ok False, w1) \<Rightarrow>
             (case MakeDir client currentPath1 w1 of
                (Err err, w2) \<Rightarrow> (Err (ErrorfCreateDir currentPath1 err), w2)
              | (Panic, w2) \<Rightarrow> (Panic, w2)
              | (Ok u, w2) \<Rightarrow> CreateRemoteDirRecursive_loop client dirs currentPath1 w2)))"

definition CreateRemoteDirRecursive :: "SFTPClient option \<Rightarrow> path \<Rightarrow> world \<Rightarrow> unit result \<times> world" where
  "CreateRemoteDirRecursive client remoteBasePath w =
     CreateRemoteDirRecursive_loop client (strings_Split remoteBasePath filepath_Separator) [] w"

subsection \<open>Recursive walker\<close>

text \<open>
  The visitor is the caller's code: it sees the path and the entry, may act on the
  world, and returns nil, an error, or panics. Each call of the visitor is recorded in
  the trace. The client object itself is not handed to the visitor. The recursion of
  WalkFile follows the server's answers and need not end, so it carries fuel: the
  number of nested calls allowed; \<open>None\<close> means the fuel ran out.
\<close>

type_synonym WalkFunc = "path \<Rightarrow> os_FileInfo \<Rightarrow> world \<Rightarrow> unit result \<times> world"

definition normalize :: "path \<Rightarrow> path" where
  "normalize remotePath =
     (if length remotePath > 1 \<and> hd remotePath = CHR ''/'' then tl remotePath else remotePath)"

fun WalkFile ::
  "nat \<Rightarrow> SFTPClient option \<Rightarrow> path \<Rightarrow> WalkFunc \<Rightarrow> world \<Rightarrow> (unit result \<times> world) option"
and WalkFile_entries ::
  "nat \<Rightarrow> SFTPClient option \<Rightarrow> path \<Rightarrow> WalkFunc \<Rightarrow> os_FileInfo list \<Rightarrow> world \<Rightarrow>
     (unit result \<times> world) option" where
  "WalkFile 0 client remotePath walkFn w = None"
| "WalkFile (Suc fuel) client remotePath walkFn w =
     (case client of
        None \<Rightarrow> Some (Err (Errorf ''SFTPClient is nil''), w)
      | Some c \<Rightarrow>
          (let normalizedPath = normalize remotePath in
           case sftp_ReadDir (sftpClient c) normalizedPath w of
             (Panic, w1) \<Rightarrow> Some (Panic, w1)
           | (Ok files, w1) \<Rightarrow> WalkFile_entries fuel client normalizedPath walkFn files w1
           | (Err err, w1) \<Rightarrow>
               (if IsPermission err then Some (Ok (), w1)
                else if IsNotExist err then Some (Ok (), w1)
                else if normalizedPath \<noteq> remotePath then
                  (case sftp_ReadDir (sftpClient c) normalizedPath w1 of
                     (Err err2, w2) \<Rightarrow>
                       Some (Err (Wrapf ''failed to list directory after retry'' err2), w2)
                   | (Panic, w2) \<Rightarrow> Some (Panic, w2)
                   | (Ok files, w2) \<Rightarrow>
                       WalkFile_entries fuel client normalizedPath walkFn files w2)
                else Some (Err (Wrapf ''failed to list directory'' err), w1))))"
| "WalkFile_entries fuel client normalizedPath walkFn [] w = Some (Ok (), w)"
| "WalkFile_entries fuel client normalizedPath walkFn (file # files) w =
     (let fullPath = normalizedPath @ ''/'' @ fi_Name file in
      case walkFn fullPath file (emit (Visit fullPath file) w) of
        (Err err, w1) \<Rightarrow> Some (Err err, w1)
      | (Panic, w1) \<Rightarrow> Some (Panic, w1)
      | (Ok u, w1) \<Rightarrow>
          (if fi_IsDir file then
             (case WalkFile fuel client fullPath walkFn w1 of
                None \<Rightarrow> None
              | Some (Err err, w2) \<Rightarrow> Some (Err err, w2)
              | Some (Panic, w2) \<Rightarrow> Some (Panic, w2)
              | Some (Ok u2, w2) \<Rightarrow> WalkFile_entries fuel client normalizedPath walkFn files w2)
           else WalkFile_entries fuel client normalizedPath walkFn files w1))"

subsection \<open>Transfer engine\<close>

text \<open>
  Output to the log and to the terminal (\<^verbatim>\<open>log.Printf\<close>, \<^verbatim>\<open>fmt.Printf\<close>, and with it the
  percentage that the progress variants print) is not part of the model. A deferred
  Close runs when the function returns, on every path after the \<^verbatim>\<open>defer\<close>.
\<close>

text \<open>UploadFile from \<^verbatim>\<open>os.Open\<close> on, once the remote size is known.\<close>

definition UploadFile_copy ::
  "SFTPClient option \<Rightarrow> path \<Rightarrow> path \<Rightarrow> nat \<Rightarrow> world \<Rightarrow> unit result \<times> world" where
  "UploadFile_copy client localPath remotePath remoteFileSize w =
     (case os_Open localPath w of
        (Err e, w1) \<Rightarrow> (Err (Wrapf ''failed to open local file'' e), w1)
      | (Panic, w1) \<Rightarrow> (Panic, w1)
      | (Ok srcFile, w1) \<Rightarrow>
          (let (r, w5) =
             (case os_File_Seek srcFile remoteFileSize w1 of
                (Err e, w2) \<Rightarrow> (Err (Wrapf ''failed to seek in local file'' e), w2)
              | (Panic, w2) \<Rightarrow> (Panic, w2)
              | (Ok srcFile1, w2) \<Rightarrow>
                  (case sftp_OpenFile_trunc (handle_of client) remotePath w2 of
                     (Err e, w3) \<Rightarrow> (Err (Wrapf ''failed to open or create remote file'' e), w3)
                   | (Panic, w3) \<Rightarrow> (Panic, w3)
                   | (Ok dstFile, w3) \<Rightarrow>
                       (case io_Copy_to_remote dstFile srcFile1 w3 of
                          (Err e, dstFile1, srcFile2, w4) \<Rightarrow>
                            (Err (Wrapf ''failed to copy file to remote'' e), sftp_File_Close dstFile w4)
                        | (Panic, dstFile1, srcFile2, w4) \<Rightarrow> (Panic, sftp_File_Close dstFile w4)
                        | (Ok n, dstFile1, srcFile2, w4) \<Rightarrow> (Ok (), sftp_File_Close dstFile w4))))
           in (r, os_File_Close srcFile w5)))"

definition UploadFile ::
  "SFTPClient option \<Rightarrow> path \<Rightarrow> path \<Rightarrow> world \<Rightarrow> unit result \<times> SFTPClient option \<times> world" where
  "UploadFile client localPath remotePath w =
     (case client of
        None \<Rightarrow> (Err (Errorf ''SFTPClient is nil''), client, w)
      | Some c \<Rightarrow>
          (case ensureConnected client w of
             (Err e, client1, w1) \<Rightarrow> (Err (Wrapf ''failed to reconnect'' e), client1, w1)
           | (Panic, client1, w1) \<Rightarrow> (Panic, client1, w1)
           | (Ok u, client1, w1) \<Rightarrow>
               (case os_Stat localPath w1 of
                  (Err e, w2) \<Rightarrow> (Err (Wrapf ''failed to get local file info'' e), client1, w2)
                | (Panic, w2) \<Rightarrow> (Panic, client1, w2)
                | (Ok localFileInfo, w2) \<Rightarrow>
                    (case sftp_Stat (handle_of client1) remotePath w2 of
                       (Panic, w3) \<Rightarrow> (Panic, client1, w3)
                     | (Ok remoteFileInfo, w3) \<Rightarrow>
                         (let (r, w4) = UploadFile_copy client1 localPath remotePath
                                          (fi_Size remoteFileInfo) w3
                          in (r, client1, w4))
                     | (Err err, w3) \<Rightarrow>
                         (if \<not> IsNotExist err
                          then (Err (Wrapf ''failed to get remote file info'' err), client1, w3)
                          else (let (r, w4) = UploadFile_copy client1 localPath remotePath 0 w3
                                in (r, client1, w4)))))))"

text \<open>The retry loop of DownloadFile: \<^verbatim>\<open>for retries := 0; retries < 3; retries++\<close>.\<close>

function DownloadFile_retry ::
  "SFTPClient option \<Rightarrow> int \<Rightarrow> os_File \<Rightarrow> sftp_File \<Rightarrow> world \<Rightarrow>
     unit result \<times> SFTPClient option \<times> world" where
  "DownloadFile_retry client retries localFile remoteFile w =
     (if retries < 3 then
        (case io_Copy_to_local localFile remoteFile w of
           (Ok n, localFile1, remoteFile1, w1) \<Rightarrow> (Ok (), client, w1)
         | (Panic, localFile1, remoteFile1, w1) \<Rightarrow> (Panic, client, w1)
         | (Err err, localFile1, remoteFile1, w1) \<Rightarrow>
             (if retries < 2 then
                (case ensureConnectedWithRetries client 3 (time_Sleep 5 w1) of
                   (Err e, client1, w2) \<Rightarrow> (Err (Wrapf ''failed to reconnect'' e), client1, w2)
                 | (Panic, client1, w2) \<Rightarrow> (Panic, client1, w2)
                 | (Ok u, client1, w2) \<Rightarrow>
                     DownloadFile_retry client1 (retries + 1) localFile1 remoteFile1 w2)
              else (Err (Wrapf ''failed to copy file to local after 3 retries'' err), client, w1)))
      else (Ok (), client, w))"
  by pat_completeness auto
termination
  by (relation "measure (\<lambda>(client, retries, localFile, remoteFile, w). nat (3 - retries))") auto

text \<open>DownloadFile from \<^verbatim>\<open>client.sftpClient.Open\<close> on, once the local size is known.\<close>

definition DownloadFile_copy ::
  "SFTPClient option \<Rightarrow> path \<Rightarrow> path \<Rightarrow> nat \<Rightarrow> world \<Rightarrow>
     unit result \<times> SFTPClient option \<times> world" where
  "DownloadFile_copy client remotePath localPath localFileSize w =
     (case sftp_Open (handle_of client) remotePath w of
        (Err e, w1) \<Rightarrow> (Err (Wrapf ''failed to open remote file'' e), client, w1)
      | (Panic, w1) \<Rightarrow> (Panic, client, w1)
      | (Ok remoteFile, w1) \<Rightarrow>
          (let (r, client2, w5) =
             (case sftp_File_Seek remoteFile localFileSize w1 of
                (Err e, w2) \<Rightarrow> (Err (Wrapf ''failed to seek in remote file'' e), client, w2)
              | (Panic, w2) \<Rightarrow> (Panic, client, w2)
              | (Ok remoteFile1, w2) \<Rightarrow>
                  (case (if localFileSize > 0 then os_OpenFile_append localPath w2
                         else os_Create localPath w2) of
                     (Err e, w3) \<Rightarrow>
                       (Err (Wrapf ''failed to open or create local file'' e), client, w3)
                   | (Panic, w3) \<Rightarrow> (Panic, client, w3)
                   | (Ok localFile, w3) \<Rightarrow>
                       (let (r, client1, w4) = DownloadFile_retry client 0 localFile remoteFile1 w3
                        in (r, client1, os_File_Close localFile w4))))
           in (r, client2, sftp_File_Close remoteFile w5)))"

definition DownloadFile ::
  "SFTPClient option \<Rightarrow> path \<Rightarrow> path \<Rightarrow> world \<Rightarrow> unit result \<times> SFTPClient option \<times> world" where
  "DownloadFile client remotePath localPath w =
     (case client of
        None \<Rightarrow> (Err (Errorf ''SFTPClient is nil''), client, w)
      | Some c \<Rightarrow>
          (case ensureConnectedWithRetries client 3 w of
             (Err e, client1, w1) \<Rightarrow> (Err (Wrapf ''failed to reconnect'' e), client1, w1)
           | (Panic, client1, w1) \<Rightarrow> (Panic, client1, w1)
           | (Ok u, client1, w1) \<Rightarrow>
               (case sftp_Stat (handle_of client1) remotePath w1 of
                  (Panic, w2) \<Rightarrow> (Panic, client1, w2)
                | (Err err, w2) \<Rightarrow>
                    (if IsPermission err then (Ok (), client1, w2)
                     else (Err (Wrapf ''failed to get remote file info'' err), client1, w2))
                | (Ok remoteFileInfo, w2) \<Rightarrow>
                    (let remoteFileSize = fi_Size remoteFileInfo in
                     case os_Stat localPath w2 of
                       (Panic, w3) \<Rightarrow> (Panic, client1, w3)
                     | (Ok localFileInfo, w3) \<Rightarrow>
                         (if fi_Size localFileInfo = remoteFileSize then (Ok (), client1, w3)
                          else DownloadFile_copy client1 remotePath localPath
                                 (fi_Size localFileInfo) w3)
                     | (Err err, w3) \<Rightarrow>
                         (if \<not> IsNotExist err
                          then (Err (Wrapf ''failed to get local file info'' err), client1, w3)
                          else DownloadFile_copy client1 remotePath localPath 0 w3)))))"

text \<open>The read-and-write loops of the progress variants, with their 32 KiB buffer.\<close>

function UploadFileWithProgress_loop ::
  "os_File \<Rightarrow> sftp_File \<Rightarrow> world \<Rightarrow> unit result \<times> world" where
  "UploadFileWithProgress_loop localFile remoteFile w =
     (case os_File_Read localFile (32 * 1024) w of
        (buf, readErr, localFile1, w1) \<Rightarrow>
          (case (if length buf > 0 then sftp_File_Write remoteFile buf w1
                 else (Ok remoteFile, w1)) of
             (Err writeErr, w2) \<Rightarrow> (Err (Wrapf ''failed to write to remote file'' writeErr), w2)
           | (Panic, w2) \<Rightarrow> (Panic, w2)
           | (Ok remoteFile1, w2) \<Rightarrow>
               (case readErr of
                  None \<Rightarrow> UploadFileWithProgress_loop localFile1 remoteFile1 w2
                | Some e \<Rightarrow>
                    (if e = EOF then (Ok (), w2)
                     else (Err (Wrapf ''failed to read from local file'' e), w2)))))"
  by pat_completeness auto
termination
  apply (relation "measure (\<lambda>(localFile, remoteFile, w).
           length (local_content w (lf_path localFile)) - lf_off localFile)")
   apply simp
  apply (auto simp: os_File_Read_def sftp_File_Write_def Let_def local_content_def emit_def
      split: if_splits option.splits)
  done

function DownloadFileWithProgress_loop ::
  "os_File \<Rightarrow> sftp_File \<Rightarrow> world \<Rightarrow> unit result \<times> world" where
  "DownloadFileWithProgress_loop localFile remoteFile w =
     (case sftp_File_Read remoteFile (32 * 1024) w of
        (buf, readErr, remoteFile1, w1) \<Rightarrow>
          (case (if length buf > 0 then os_File_Write localFile buf w1 else (Ok (), w1)) of
             (Err writeErr, w2) \<Rightarrow> (Err (Wrapf ''failed to write to local file'' writeErr), w2)
           | (Panic, w2) \<Rightarrow> (Panic, w2)
           | (Ok u, w2) \<Rightarrow>
               (case readErr of
                  None \<Rightarrow> DownloadFileWithProgress_loop localFile remoteFile1 w2
                | Some e \<Rightarrow>
                    (if e = EOF then (Ok (), w2)
                     else (Err (Wrapf ''failed to read from remote file'' e), w2)))))"
  by pat_completeness auto
termination
  apply (relation "measure (\<lambda>(localFile, remoteFile, w).
           length (case remote_content w (rf_path remoteFile) of None \<Rightarrow> [] | Some b \<Rightarrow> b)
             - rf_off remoteFile)")
   apply simp
  apply (auto simp: sftp_File_Read_def os_File_Write_def Let_def remote_content_def emit_def
      split: if_splits option.splits rnode.splits)
  done

definition UploadFileWithProgress_copy ::
  "SFTPClient option \<Rightarrow> os_File \<Rightarrow> path \<Rightarrow> nat \<Rightarrow> world \<Rightarrow> unit result \<times> world" where
  "UploadFileWithProgress_copy client localFile remotePath remoteFileSize w =
     (case os_File_Seek localFile remoteFileSize w of
        (Err e, w1) \<Rightarrow> (Err (Wrapf ''failed to seek in local file'' e), w1)
      | (Panic, w1) \<Rightarrow> (Panic, w1)
      | (Ok localFile1, w1) \<Rightarrow>
          (case sftp_Create (handle_of client) remotePath w1 of
             (Err e, w2) \<Rightarrow> (Err (Wrapf ''failed to open or create remote file'' e), w2)
           | (Panic, w2) \<Rightarrow> (Panic, w2)
           | (Ok remoteFile, w2) \<Rightarrow>
               (let (r, w3) = UploadFileWithProgress_loop localFile1 remoteFile w2
                in (r, sftp_File_Close remoteFile w3))))"

definition UploadFileWithProgress ::
  "SFTPClient option \<Rightarrow> path \<Rightarrow> path \<Rightarrow> world \<Rightarrow> unit result \<times> SFTPClient option \<times> world" where
  "UploadFileWithProgress client localPath remotePath w =
     (case client of
        None \<Rightarrow> (Err (Errorf ''SFTPClient is nil''), client, w)
      | Some c \<Rightarrow>
          (case ensureConnected client w of
             (Err e, client1, w1) \<Rightarrow> (Err (Wrapf ''failed to reconnect'' e), client1, w1)
           | (Panic, client1, w1) \<Rightarrow> (Panic, client1, w1)
           | (Ok u, client1, w1) \<Rightarrow>
               (case os_Stat localPath w1 of
                  (Err e, w2) \<Rightarrow> (Err (Wrapf ''failed to get local file info'' e), client1, w2)
                | (Panic, w2) \<Rightarrow> (Panic, client1, w2)
                | (Ok localFileInfo, w2) \<Rightarrow>
                    (case os_Open localPath w2 of
                       (Err e, w3) \<Rightarrow> (Err (Wrapf ''failed to open local file'' e), client1, w3)
                     | (Panic, w3) \<Rightarrow> (Panic, client1, w3)
                     | (Ok localFile, w3) \<Rightarrow>
                         (let (r, w5) =
                            (case sftp_Stat (handle_of client1) remotePath w3 of
                               (Panic, w4) \<Rightarrow> (Panic, w4)
                             | (Ok remoteFileInfo, w4) \<Rightarrow>
                                 UploadFileWithProgress_copy client1 localFile remotePath
                                   (fi_Size remoteFileInfo) w4
                             | (Err err, w4) \<Rightarrow>
                                 (if \<not> IsNotExist err
                                  then (Err (Wrapf ''failed to get remote file info'' err), w4)
                                  else UploadFileWithProgress_copy client1 localFile remotePath 0 w4))
                          in (r, client1, os_File_Close localFile w5))))))"

definition DownloadFileWithProgress_copy ::
  "SFTPClient option \<Rightarrow> path \<Rightarrow> path \<Rightarrow> nat \<Rightarrow> world \<Rightarrow> unit result \<times> world" where
  "DownloadFileWithProgress_copy client remotePath localPath localFileSize w =
     (case sftp_Open (handle_of client) remotePath w of
        (Err e, w1) \<Rightarrow> (Err (Wrapf ''failed to open remote file'' e), w1)
      | (Panic, w1) \<Rightarrow> (Panic, w1)
      | (Ok remoteFile, w1) \<Rightarrow>
          (let (r, w5) =
             (case sftp_File_Seek remoteFile localFileSize w1 of
                (Err e, w2) \<Rightarrow> (Err (Wrapf ''failed to seek in remote file'' e), w2)
              | (Panic, w2) \<Rightarrow> (Panic, w2)
              | (Ok remoteFile1, w2) \<Rightarrow>
                  (case (if localFileSize > 0 then os_OpenFile_append localPath w2
                         else os_Create localPath w2) of
                     (Err e, w3) \<Rightarrow> (Err (Wrapf ''failed to open or create local file'' e), w3)
                   | (Panic, w3) \<Rightarrow> (Panic, w3)
                   | (Ok localFile, w3) \<Rightarrow>
                       (let (r, w4) = DownloadFileWithProgress_loop localFile remoteFile1 w3
                        in (r, os_File_Close localFile w4))))
           in (r, sftp_File_Close remoteFile w5)))"

definition DownloadFileWithProgress ::
  "SFTPClient option \<Rightarrow> path \<Rightarrow> path \<Rightarrow> world \<Rightarrow> unit result \<times> SFTPClient option \<times> world" where
  "DownloadFileWithProgress client remotePath localPath w =
     (case client of
        None \<Rightarrow> (Err (Errorf ''SFTPClient is nil''), client, w)
      | Some c \<Rightarrow>
          (case ensureConnectedWithRetries client 3 w of
             (Err e, client1, w1) \<Rightarrow> (Err (Wrapf ''failed to reconnect'' e), client1, w1)
           | (Panic, client1, w1) \<Rightarrow> (Panic, client1, w1)
           | (Ok u, client1, w1) \<Rightarrow>
               (case sftp_Stat (handle_of client1) remotePath w1 of
                  (Panic, w2) \<Rightarrow> (Panic, client1, w2)
                | (Err err, w2) \<Rightarrow>
                    (if IsPermission err then (Ok (), client1, w2)
                     else (Err (Wrapf ''failed to get remote file info'' err), client1, w2))
                | (Ok remoteFileInfo, w2) \<Rightarrow>
                    (let remoteFileSize = fi_Size remoteFileInfo in
                     case os_Stat localPath w2 of
                       (Panic, w3) \<Rightarrow> (Panic, client1, w3)
                     | (Ok localFileInfo, w3) \<Rightarrow>
                         (if fi_Size localFileInfo = remoteFileSize then (Ok (), client1, w3)
                          else (let (r, w4) = DownloadFileWithProgress_copy client1 remotePath
                                                localPath (fi_Size localFileInfo) w3
                                in (r, client1, w4)))
                     | (Err err, w3) \<Rightarrow>
                         (if \<not> IsNotExist err
                          then (Err (Wrapf ''failed to get local file info'' err), client1, w3)
                          else (let (r, w4) = DownloadFileWithProgress_copy client1 remotePath
                                                localPath 0 w3
                                in (r, client1, w4)))))))"

section \<open>Scenarios and descriptions used by the properties\<close>

subsection \<open>Sessions and worlds\<close>

definition params0 :: SFTPClientParams where
  "params0 = \<lparr>host = ''h'', port = ''22'', user = ''u'', password = ''pw'',
              privateKeyPath = [], privateKeyB64 = []\<rparr>"

definition connected_client :: SFTPClient where
  "connected_client = \<lparr>params = Some params0, sshClient = Some 1, sftpClient = Some 2\<rparr>"

definition fresh_client :: SFTPClient where
  "fresh_client = \<lparr>params = Some params0, sshClient = None, sftpClient = None\<rparr>"

definition dial_config :: ClientConfig where
  "dial_config = \<lparr>cfg_User = ''u'', cfg_Auth = [PasswordAuth ''pw''], cfg_Timeout = 180\<rparr>"

definition world_dial_fails :: world where
  "world_dial_fails =
     \<lparr>trace = [], faults = (\<lambda>i. if i = 2 then Some (OtherFailure, 0) else None),
      localfs = Map.empty, remotefs = [], live = {1, 2}, next_handle = 3\<rparr>"

definition world_unreachable :: world where
  "world_unreachable =
     \<lparr>trace = [], faults = (\<lambda>i. Some (OtherFailure, 0)),
      localfs = Map.empty, remotefs = [], live = {}, next_handle = 1\<rparr>"

subsection \<open>Retrying the liveness check\<close>

text \<open>
  The description of retrying, in the words of the specification: \<open>failed_attempts k\<close>
  is the session and the world after \<open>k\<close> attempts of \<open>ensureConnected\<close> in a row that
  each returned an error and were each followed by a sleep of two seconds; it is \<open>None\<close>
  when one of these attempts did not return an error.
\<close>

fun failed_attempts :: "nat \<Rightarrow> SFTPClient option \<Rightarrow> world \<Rightarrow> (SFTPClient option \<times> world) option" where
  "failed_attempts 0 client w = Some (client, w)"
| "failed_attempts (Suc k) client w =
     (case ensureConnected client w of
        (Err e, client1, w1) \<Rightarrow> failed_attempts k client1 (time_Sleep 2 w1)
      | (Ok u, client1, w1) \<Rightarrow> None
      | (Panic, client1, w1) \<Rightarrow> None)"

subsection \<open>What the session manager may do to the world\<close>

text \<open>
  The events that checking and re-establishing the connection can add to the trace,
  and the events added between two worlds.
\<close>

fun session_event :: "event \<Rightarrow> bool" where
  "session_event (SftpReadDir h p) = True"
| "session_event (SftpClose h) = True"
| "session_event (SshClose h) = True"
| "session_event (OsReadFile p) = True"
| "session_event ParseKey = True"
| "session_event ParseKeyWithPassphrase = True"
| "session_event (SshDial addr cfg) = True"
| "session_event (SftpNewClient h) = True"
| "session_event (Sleep n) = True"
| "session_event _ = False"

definition added :: "world \<Rightarrow> world \<Rightarrow> event list" where
  "added w w' = drop (length (trace w)) (trace w')"

definition session_step :: "world \<Rightarrow> world \<Rightarrow> bool" where
  "session_step w w' =
     (trace w' = trace w @ added w w' \<and> list_all session_event (added w w') \<and>
      localfs w' = localfs w \<and> remotefs w' = remotefs w \<and> faults w' = faults w)"


definition upload_world :: world where
  "upload_world =
     \<lparr>trace = [], faults = (\<lambda>i. None),
      localfs = [''l'' \<mapsto> ''0123456789''],
      remotefs = [(''.'', RDir), (''r'', RFile ''0123'')],
      live = {1, 2}, next_handle = 3\<rparr>"

definition stat_denied_world :: world where
  "stat_denied_world =
     \<lparr>trace = [], faults = (\<lambda>i. if i = 1 then Some (Permission, 0) else None),
      localfs = [''l'' \<mapsto> ''abc''],
      remotefs = [(''.'', RDir), (''r'', RFile ''abcdef'')],
      live = {1, 2}, next_handle = 3\<rparr>"

subsection \<open>Walks and downloads that meet failures\<close>

definition noop_visitor :: WalkFunc where
  "noop_visitor p info w = (Ok (), w)"

definition listing_fails_world :: world where
  "listing_fails_world =
     \<lparr>trace = [], faults = (\<lambda>i. Some (OtherFailure, 0)),
      localfs = Map.empty, remotefs = [(''root'', RDir)], live = {1, 2}, next_handle = 3\<rparr>"

text \<open>
  A walk of \<^verbatim>\<open>root/{sub/, z}\<close> during which the listing of \<^verbatim>\<open>root/sub\<close> (the third call: after
  the listing of \<^verbatim>\<open>root\<close> and the visit of \<^verbatim>\<open>root/sub\<close>) fails.
\<close>

definition sub_listing_fails_world :: world where
  "sub_listing_fails_world =
     \<lparr>trace = [], faults = (\<lambda>i. if i = 2 then Some (OtherFailure, 0) else None),
      localfs = Map.empty,
      remotefs = [(''root'', RDir), (''root/sub'', RDir), (''root/z'', RFile ''x'')],
      live = {1, 2}, next_handle = 3\<rparr>"

text \<open>
  A download during which the first copy breaks after two bytes (the seventh call of
  DownloadFile, the first call of its retry loop).
\<close>

definition copy_breaks_world :: world where
  "copy_breaks_world =
     \<lparr>trace = [], faults = (\<lambda>i. if i = 6 then Some (OtherFailure, 2) else None),
      localfs = Map.empty,
      remotefs = [(''.'', RDir), (''r'', RFile ''abcdef'')],
      live = {1, 2}, next_handle = 3\<rparr>"

text \<open>
  The same download when, after the broken copy, the liveness probe fails as well (the
  ninth call), so that the session is re-established before the copy is retried.
\<close>

definition reconnect_world :: world where
  "reconnect_world =
     \<lparr>trace = [],
      faults = (\<lambda>i. if i = 6 then Some (OtherFailure, 2)
                     else if i = 8 then Some (OtherFailure, 0) else None),
      localfs = Map.empty,
      remotefs = [(''.'', RDir), (''r'', RFile ''abcdef'')],
      live = {1, 2}, next_handle = 3\<rparr>"

subsection \<open>Creating a directory path\<close>

text \<open>
  The path is split on the separator, empty components are skipped, and the components
  are accumulated left to right into prefixes (with \<^verbatim>\<open>filepath.Join\<close>, as the code joins
  them).
\<close>

fun accumulate :: "path \<Rightarrow> string list \<Rightarrow> path list" where
  "accumulate cur [] = []"
| "accumulate cur (d # ds) =
     (if d = [] then accumulate cur ds
      else (let cur1 = (if cur = [] then d else filepath_Join cur d)
            in cur1 # accumulate cur1 ds))"

definition prefixes :: "path \<Rightarrow> path list" where
  "prefixes p = accumulate [] (strings_Split p filepath_Separator)"

text \<open>
  The procedure over the prefixes, stated on the two library calls: for each prefix in
  turn one existence check, which is a stat; when the stat succeeds the prefix counts as
  existing and nothing is created; when it does not succeed, because nothing is there or
  because the call itself failed, one creation call follows; a creation call that fails
  ends the procedure with an error that names the prefix.
\<close>

fun check_and_create :: "handle option \<Rightarrow> path list \<Rightarrow> world \<Rightarrow> unit result \<times> world" where
  "check_and_create ho [] w = (Ok (), w)"
| "check_and_create ho (q # qs) w =
     (case sftp_Stat ho q w of
        (Ok info, w1) \<Rightarrow> check_and_create ho qs w1
      | (Panic, w1) \<Rightarrow> (Panic, w1)
      | (Err e, w1) \<Rightarrow>
          (case sftp_Mkdir ho q w1 of
             (Ok u, w2) \<Rightarrow> check_and_create ho qs w2
           | (Panic, w2) \<Rightarrow> (Panic, w2)
           | (Err e2, w2) \<Rightarrow>
               (Err (ErrorfCreateDir q (Wrapf ''failed to create directory'' e2)), w2)))"

text \<open>Every existence check of the prefixes, made in turn, succeeds.\<close>

fun stats_succeed :: "handle option \<Rightarrow> path list \<Rightarrow> world \<Rightarrow> bool" where
  "stats_succeed ho [] w = True"
| "stats_succeed ho (q # qs) w =
     (case sftp_Stat ho q w of
        (Ok info, w1) \<Rightarrow> stats_succeed ho qs w1
      | (Err e, w1) \<Rightarrow> False
      | (Panic, w1) \<Rightarrow> False)"

text \<open>
  When no call fails, the calls depend on the paths present only: \<open>dir_calls\<close> lists
  them, \<open>with_dirs\<close> is the remote store afterwards. Each prefix of a \<open>chained\<close> list has
  the prefix before it as its directory part, so that it can be created once that one
  is a directory.
\<close>

fun dir_calls :: "handle \<Rightarrow> path list \<Rightarrow> path set \<Rightarrow> event list" where
  "dir_calls h [] present = []"
| "dir_calls h (p # ps) present =
     (if p \<in> present then SftpStat h p # dir_calls h ps present
      else SftpStat h p # SftpMkdir h p # dir_calls h ps (insert p present))"

fun with_dirs :: "path list \<Rightarrow> (path \<times> rnode) list \<Rightarrow> (path \<times> rnode) list" where
  "with_dirs [] fs = fs"
| "with_dirs (p # ps) fs =
     with_dirs ps (if p \<in> dom (map_of fs) then fs else store_put p RDir fs)"

fun chained :: "path \<Rightarrow> path list \<Rightarrow> bool" where
  "chained prev [] = True"
| "chained prev (q # qs) = (parent_dir q = prev \<and> chained q qs)"

definition no_files :: "(path \<times> rnode) list \<Rightarrow> path list \<Rightarrow> bool" where
  "no_files fs qs = list_all (\<lambda>q. case map_of fs q of Some (RFile b) \<Rightarrow> False | _ \<Rightarrow> True) qs"

definition mkdir_world :: world where
  "mkdir_world =
     \<lparr>trace = [], faults = (\<lambda>i. None), localfs = Map.empty,
      remotefs = [(''.'', RDir), (''a'', RDir)], live = {1, 2}, next_handle = 3\<rparr>"

text \<open>
  All of \<^verbatim>\<open>a\<close>, \<^verbatim>\<open>a/b\<close> and \<^verbatim>\<open>a/b/c\<close> are directories of the server, and the first call made
  is refused with permission denied.
\<close>

definition dirs_present_world :: world where
  "dirs_present_world =
     \<lparr>trace = [], faults = (\<lambda>i. if i = 0 then Some (Permission, 0) else None),
      localfs = Map.empty,
      remotefs = [(''.'', RDir), (''a'', RDir), (''a/b'', RDir), (''a/b/c'', RDir)],
      live = {1, 2}, next_handle = 3\<rparr>"

subsection \<open>Remote trees and the order of a walk\<close>

text \<open>
  A remote tree: each node is an entry as a listing reports it, with the trees of the
  entries below it (looked at for directories only). The store serves the forest \<open>ts\<close>
  at path \<open>p\<close> when each directory entry of \<open>ts\<close> lists, under its joined path as the
  walker normalizes it, exactly the roots of its subtrees, and so on downwards.
\<close>

datatype rtree = Node os_FileInfo "rtree list"

fun root_info :: "rtree \<Rightarrow> os_FileInfo" where
  "root_info (Node info cs) = info"

definition listing :: "(path \<times> rnode) list \<Rightarrow> path \<Rightarrow> os_FileInfo list option" where
  "listing fs p = (case map_of fs p of Some RDir \<Rightarrow> Some (children fs p) | _ \<Rightarrow> None)"

fun served :: "(path \<times> rnode) list \<Rightarrow> path \<Rightarrow> rtree list \<Rightarrow> bool" where
  "served fs p [] = True"
| "served fs p (Node info cs # ts) =
     ((if fi_IsDir info
       then listing fs (normalize (p @ ''/'' @ fi_Name info)) = Some (map root_info cs) \<and>
            served fs (normalize (p @ ''/'' @ fi_Name info)) cs
       else True) \<and>
      served fs p ts)"

text \<open>
  Depth-first order: an entry, then everything below it if it is a directory, then its
  next sibling; each entry with its joined path. The depth of a forest bounds the
  nesting of the walk.
\<close>

fun preorder :: "path \<Rightarrow> rtree list \<Rightarrow> (path \<times> os_FileInfo) list" where
  "preorder p [] = []"
| "preorder p (Node info cs # ts) =
     (p @ ''/'' @ fi_Name info, info) #
     (if fi_IsDir info then preorder (normalize (p @ ''/'' @ fi_Name info)) cs else []) @
     preorder p ts"

fun depth :: "rtree list \<Rightarrow> nat" where
  "depth [] = 0"
| "depth (Node info cs # ts) = max (if fi_IsDir info then Suc (depth cs) else 0) (depth ts)"

text \<open>
  A visitor that only looks at the path and the entry. A walk visits the entries in
  order up to and including the first one that the visitor rejects.
\<close>

definition visitor_of :: "(path \<Rightarrow> os_FileInfo \<Rightarrow> error option) \<Rightarrow> WalkFunc" where
  "visitor_of v p info w = ((case v p info of None \<Rightarrow> Ok () | Some e \<Rightarrow> Err e), w)"

fun visited_until ::
  "(path \<Rightarrow> os_FileInfo \<Rightarrow> error option) \<Rightarrow> (path \<times> os_FileInfo) list \<Rightarrow> (path \<times> os_FileInfo) list" where
  "visited_until v [] = []"
| "visited_until v ((p, info) # rest) =
     (p, info) # (case v p info of None \<Rightarrow> visited_until v rest | Some e \<Rightarrow> [])"

fun first_error ::
  "(path \<Rightarrow> os_FileInfo \<Rightarrow> error option) \<Rightarrow> (path \<times> os_FileInfo) list \<Rightarrow> error option" where
  "first_error v [] = None"
| "first_error v ((p, info) # rest) =
     (case v p info of None \<Rightarrow> first_error v rest | Some e \<Rightarrow> Some e)"

definition walk_result ::
  "(path \<Rightarrow> os_FileInfo \<Rightarrow> error option) \<Rightarrow> (path \<times> os_FileInfo) list \<Rightarrow> unit result" where
  "walk_result v entries = (case first_error v entries of None \<Rightarrow> Ok () | Some e \<Rightarrow> Err e)"

fun visit_of :: "event \<Rightarrow> (path \<times> os_FileInfo) list" where
  "visit_of (Visit p info) = [(p, info)]"
| "visit_of _ = []"

definition visits :: "event list \<Rightarrow> (path \<times> os_FileInfo) list" where
  "visits evs = concat (map visit_of evs)"

text \<open>
  What the visitor is assumed to do: whatever it likes to the local files and to the
  trace, as long as it leaves the remote store, the fault schedule and the walker's
  handle as they are (\<open>kept\<close>), and only adds events to the trace, none of them a visit of
  a walk (\<open>quiet\<close>). A visitor \<open>decides\<close> by \<open>v\<close> when its answer is a function of the path
  and the entry alone.
\<close>

definition kept :: "handle \<Rightarrow> world \<Rightarrow> world \<Rightarrow> bool" where
  "kept h w w' =
     (remotefs w' = remotefs w \<and> faults w' = faults w \<and> (h \<in> live w \<longrightarrow> h \<in> live w'))"

definition quiet :: "world \<Rightarrow> world \<Rightarrow> bool" where
  "quiet w w' = (trace w' = trace w @ added w w' \<and> visits (added w w') = [])"

definition bystander :: "handle \<Rightarrow> WalkFunc \<Rightarrow> bool" where
  "bystander h walkFn =
     (\<forall>p info w. kept h w (snd (walkFn p info w)) \<and> quiet w (snd (walkFn p info w)))"

definition decides :: "(path \<Rightarrow> os_FileInfo \<Rightarrow> error option) \<Rightarrow> WalkFunc \<Rightarrow> bool" where
  "decides v walkFn =
     (\<forall>p info w. fst (walkFn p info w) = (case v p info of None \<Rightarrow> Ok () | Some e \<Rightarrow> Err e))"

text \<open>
  The walk of a tree, in the words of the specification: each entry in turn is visited
  with its joined path; an entry that is a directory is then listed and everything
  below it is walked before the next sibling; an answer of the visitor other than nil
  ends the walk there, and so does a nested walk that ends with one.
\<close>

fun walk_tree :: "handle \<Rightarrow> WalkFunc \<Rightarrow> path \<Rightarrow> rtree list \<Rightarrow> world \<Rightarrow> unit result \<times> world" where
  "walk_tree h walkFn p [] w = (Ok (), w)"
| "walk_tree h walkFn p (Node info cs # ts) w =
     (case walkFn (p @ ''/'' @ fi_Name info) info (emit (Visit (p @ ''/'' @ fi_Name info) info) w) of
        (Err e, w1) \<Rightarrow> (Err e, w1)
      | (Panic, w1) \<Rightarrow> (Panic, w1)
      | (Ok u, w1) \<Rightarrow>
          (if fi_IsDir info then
             (case walk_tree h walkFn (normalize (p @ ''/'' @ fi_Name info)) cs
                     (emit (SftpReadDir h (normalize (p @ ''/'' @ fi_Name info))) w1) of
                (Err e, w2) \<Rightarrow> (Err e, w2)
              | (Panic, w2) \<Rightarrow> (Panic, w2)
              | (Ok u2, w2) \<Rightarrow> walk_tree h walkFn p ts w2)
           else walk_tree h walkFn p ts w1))"

text \<open>The tree \<^verbatim>\<open>/root/{f1, sub/{f2}}\<close>, and a visitor that rejects the directory \<^verbatim>\<open>sub\<close>.\<close>

definition f1_entry :: os_FileInfo where
  "f1_entry = \<lparr>fi_Name = ''f1'', fi_Size = 1, fi_IsDir = False\<rparr>"

definition sub_entry :: os_FileInfo where
  "sub_entry = \<lparr>fi_Name = ''sub'', fi_Size = 0, fi_IsDir = True\<rparr>"

definition f2_entry :: os_FileInfo where
  "f2_entry = \<lparr>fi_Name = ''f2'', fi_Size = 2, fi_IsDir = False\<rparr>"

definition root_tree :: "rtree list" where
  "root_tree = [Node f1_entry [], Node sub_entry [Node f2_entry []]]"

definition tree_world :: world where
  "tree_world =
     \<lparr>trace = [], faults = (\<lambda>i. None), localfs = Map.empty,
      remotefs = [(''root'', RDir), (''root/f1'', RFile ''x''), (''root/sub'', RDir),
                  (''root/sub/f2'', RFile ''yz'')],
      live = {1, 2}, next_handle = 3\<rparr>"

definition accept_all :: "path \<Rightarrow> os_FileInfo \<Rightarrow> error option" where
  "accept_all p info = None"

definition reject_sub :: "path \<Rightarrow> os_FileInfo \<Rightarrow> error option" where
  "reject_sub p info = (if p = ''root/sub'' then Some (Errorf ''stop'') else None)"

text \<open>A visitor that looks for a local file of the same path, and goes on whatever it finds.\<close>

definition local_stat_visitor :: WalkFunc where
  "local_stat_visitor p info w = (case os_Stat p w of (r, w1) \<Rightarrow> (Ok (), w1))"

text \<open>A server whose root directory \<^verbatim>\<open>/\<close> holds the one file \<^verbatim>\<open>f\<close>, listed as \<^verbatim>\<open>//f\<close>.\<close>

definition slash_world :: world where
  "slash_world =
     \<lparr>trace = [], faults = (\<lambda>i. None), localfs = Map.empty,
      remotefs = [(''/'', RDir), (''//f'', RFile ''x'')],
      live = {1, 2}, next_handle = 3\<rparr>"

section \<open>Properties\<close>

text \<open>
  Evaluation at concrete inputs simplifies the scrutinee of a case first and a branch
  only once it is chosen.
\<close>

lemmas eval_cong = result.case_cong_weak prod.case_cong_weak option.case_cong_weak
  list.case_cong_weak rnode.case_cong_weak bool.case_cong_weak

subsection \<open>Reconnecting\<close>

declare ensureConnectedWithRetries_loop.simps [simp del]

lemma emit_fields [simp]:
  "trace (emit e w) = trace w @ [e]"
  "faults (emit e w) = faults w"
  "localfs (emit e w) = localfs w"
  "remotefs (emit e w) = remotefs w"
  "live (emit e w) = live w"
  "next_handle (emit e w) = next_handle w"
  by (simp_all add: emit_def)

lemma parse_signer_live: "parse_signer p key w = (r, w') \<Longrightarrow> live w' = live w"
  by (auto simp: parse_signer_def ssh_ParsePrivateKey_def ssh_ParsePrivateKeyWithPassphrase_def Let_def
      split: if_splits option.splits prod.splits result.splits)

lemma auth_methods_live:
  assumes "auth_methods p w = (r, w')"
  shows "live w' = live w"
proof -
  have "live (snd (auth_methods p w)) = live w"
    by (auto simp: auth_methods_def os_ReadFile_def Let_def dest: parse_signer_live
        split: if_split option.split prod.split result.split)
  then show ?thesis using assms by simp
qed

lemma close_previous_live:
  "live (close_previous c w) = live w - set_option (sftpClient c) - set_option (sshClient c)"
  by (auto simp: close_previous_def sftp_Client_Close_def ssh_Client_Close_def Let_def split: option.splits)

lemma ssh_Dial_live:
  "ssh_Dial addr cfg w = (r, w') \<Longrightarrow>
     r \<noteq> Panic \<and> (case r of Ok conn \<Rightarrow> live w' = insert conn (live w) | _ \<Rightarrow> live w' = live w)"
  by (auto simp: ssh_Dial_def new_handle_def Let_def split: option.splits prod.splits)

lemma sftp_NewClient_live:
  "sftp_NewClient conn w = (r, w') \<Longrightarrow>
     r \<noteq> Panic \<and>
     (case r of Ok sc \<Rightarrow> live w' = insert sc (live w) \<and> conn \<in> live w | _ \<Rightarrow> live w' = live w)"
  by (auto simp: sftp_NewClient_def new_handle_def Let_def split: option.splits prod.splits if_splits)

lemma auth_methods_no_panic: "auth_methods p w \<noteq> (Panic, w')"
  by (auto simp: auth_methods_def parse_signer_def os_ReadFile_def ssh_ParsePrivateKey_def
        ssh_ParsePrivateKeyWithPassphrase_def Let_def
      split: if_splits option.splits prod.splits result.splits)

lemma ReConnect_outcome:
  assumes rc: "ReConnect (Some c) w = (r, client', w')"
  shows "client' \<noteq> None \<and> params (the client') = params c \<and>
         (r = Ok () \<longrightarrow>
            (\<exists>conn sc. sshClient (the client') = Some conn \<and> sftpClient (the client') = Some sc \<and>
                       conn \<in> live w' \<and> sc \<in> live w')) \<and>
         (r \<noteq> Ok () \<longrightarrow>
            client' = Some c \<and>
            live w' \<subseteq> live w - set_option (sftpClient c) - set_option (sshClient c)) \<and>
         ((sshClient c = None) = (sftpClient c = None) \<longrightarrow>
            (sshClient (the client') = None) = (sftpClient (the client') = None))"
proof (cases "params c")
  case None
  then have "r = Panic" "client' = Some c" "w' = close_previous c w"
    using rc by (simp_all add: ReConnect_def Let_def)
  then show ?thesis by (simp add: close_previous_live)
next
  case (Some p)
  obtain ra w2 where am: "auth_methods p (close_previous c w) = (ra, w2)" by force
  have l2: "live w2 = live w - set_option (sftpClient c) - set_option (sshClient c)"
    using auth_methods_live [OF am] by (simp add: close_previous_live)
  show ?thesis
  proof (cases ra)
    case Panic
    then show ?thesis using am auth_methods_no_panic by blast
  next
    case (Err e)
    then have "r = Err e" "client' = Some c" "w' = w2"
      using rc Some am by (simp_all add: ReConnect_def Let_def)
    then show ?thesis using l2 by simp
  next
    case (Ok authMethods)
    obtain rd w3 where dial:
      "ssh_Dial (host p @ '':'' @ port p)
         \<lparr>cfg_User = user p, cfg_Auth = authMethods, cfg_Timeout = 180\<rparr> w2 = (rd, w3)"
      by force
    note dl = ssh_Dial_live [OF dial]
    show ?thesis
    proof (cases rd)
      case Panic
      then show ?thesis using dl by simp
    next
      case (Err e)
      then have "r = Err (Wrapf ''failed to dial'' e)" "client' = Some c" "w' = w3"
        using rc Some am Ok dial by (simp_all add: ReConnect_def Let_def)
      then show ?thesis using l2 dl Err by simp
    next
      case conn: (Ok conn)
      obtain rn w4 where nc: "sftp_NewClient conn w3 = (rn, w4)" by force
      note nl = sftp_NewClient_live [OF nc]
      have l3: "live w3 = insert conn (live w2)" using dl conn by simp
      show ?thesis
      proof (cases rn)
        case Panic
        then show ?thesis using nl by simp
      next
        case (Err e)
        then have "r = Err (Wrapf ''failed to create SFTP client'' e)" "client' = Some c"
          "w' = ssh_Client_Close conn w4"
          using rc Some am Ok dial conn nc by (simp_all add: ReConnect_def Let_def)
        moreover have "live w4 = live w3" using nl Err by simp
        ultimately show ?thesis using l2 l3 by (auto simp: ssh_Client_Close_def)
      next
        case sc: (Ok sc)
        then have "r = Ok ()" "client' = Some (c\<lparr>sshClient := Some conn, sftpClient := Some sc\<rparr>)"
          "w' = w4"
          using rc Some am Ok dial conn nc by (simp_all add: ReConnect_def Let_def)
        moreover have "live w4 = insert sc (live w3)" using nl sc by simp
        ultimately show ?thesis using l3 by simp
      qed
    qed
  qed
qed


lemmas conn_defs = ReConnect_def close_previous_def auth_methods_def parse_signer_def ssh_Dial_def
  sftp_NewClient_def new_handle_def sftp_Client_Close_def ssh_Client_Close_def os_ReadFile_def
  ssh_ParsePrivateKey_def ssh_ParsePrivateKeyWithPassphrase_def isConnected_def ensureConnected_def
  sftp_ReadDir_def sftp_call_def fault_now_def emit_def time_Sleep_def

text \<open>
  C2, as amended. A call of ReConnect on a session returns the session with its
  parameters untouched. When it succeeds, both handle fields hold handles that are open.
  When it does not succeed (an error at any step, or the panic on nil parameters), the
  struct is exactly as it was, so its handle fields still hold the old handles and are
  not reset to nil; the old handles have been closed, and no handle created during the
  attempt is left open. Hence a session whose two handle fields were both nil or both
  non-nil is never left with exactly one of them non-nil.
\<close>

theorem ReConnect_handles:
  assumes rc: "ReConnect (Some c) w = (r, client', w')"
  shows "client' \<noteq> None \<and> params (the client') = params c \<and>
         (r = Ok () \<longrightarrow>
            (\<exists>conn sc. sshClient (the client') = Some conn \<and> sftpClient (the client') = Some sc \<and>
                       conn \<in> live w' \<and> sc \<in> live w')) \<and>
         (r \<noteq> Ok () \<longrightarrow>
            client' = Some c \<and>
            live w' \<subseteq> live w - set_option (sftpClient c) - set_option (sshClient c)) \<and>
         ((sshClient c = None) = (sftpClient c = None) \<longrightarrow>
            (sshClient (the client') = None) = (sftpClient (the client') = None))"
  using rc by (rule ReConnect_outcome)

text \<open>
  C2 as stated fails: a connected session whose dial fails on ReConnect gets the error
  back and keeps both handle fields non-nil (handles 1 and 2, now closed); it is not
  left in the state where both are nil.
\<close>

theorem ReConnect_failure_keeps_handles:
  "ReConnect (Some connected_client) world_dial_fails =
     (Err (Wrapf ''failed to dial'' (LibErr OtherFailure)), Some connected_client,
      world_dial_fails\<lparr>trace := [SftpClose 2, SshClose 1, SshDial ''h:22'' dial_config], live := {}\<rparr>)
   \<and> sshClient connected_client = Some 1 \<and> sftpClient connected_client = Some 2"
  by (simp add: conn_defs connected_client_def world_dial_fails_def params0_def dial_config_def Let_def
      insert_Diff_if)

text \<open>The theorem at that session: the failed call closes handles 1 and 2 and opens none.\<close>

theorem ReConnect_handles_witness:
  "ReConnect (Some connected_client) world_dial_fails =
     (Err (Wrapf ''failed to dial'' (LibErr OtherFailure)), Some connected_client,
      world_dial_fails\<lparr>trace := [SftpClose 2, SshClose 1, SshDial ''h:22'' dial_config], live := {}\<rparr>)
   \<and> (sshClient connected_client = None) = (sftpClient connected_client = None)
   \<and> live (world_dial_fails\<lparr>trace := [SftpClose 2, SshClose 1, SshDial ''h:22'' dial_config], live := {}\<rparr>)
      \<subseteq> live world_dial_fails - {2} - {1}"
proof -
  have rc: "ReConnect (Some connected_client) world_dial_fails =
     (Err (Wrapf ''failed to dial'' (LibErr OtherFailure)), Some connected_client,
      world_dial_fails\<lparr>trace := [SftpClose 2, SshClose 1, SshDial ''h:22'' dial_config], live := {}\<rparr>)"
    by (simp add: conn_defs connected_client_def world_dial_fails_def params0_def dial_config_def Let_def
      insert_Diff_if)
  show ?thesis
    using ReConnect_handles [OF rc] rc by (simp add: connected_client_def)
qed

subsection \<open>Retrying the liveness check: outcome\<close>

lemma loop_err:
  "(ensureConnectedWithRetries_loop client n i w = (Err e, client', w')) =
     (e = ErrorfAttempts n \<and> failed_attempts (nat (n - i)) client w = Some (client', w'))"
proof (induction "nat (n - i)" arbitrary: i client w)
  case 0
  then have "\<not> i < n" by simp
  then show ?case using 0 by (auto simp: ensureConnectedWithRetries_loop.simps)
next
  case (Suc m)
  then have lt: "i < n" and m: "m = nat (n - (i + 1))" by linarith+
  have sm: "nat (n - i) = Suc m" using Suc.hyps(2) by simp
  obtain r1 c1 w1 where ec: "ensureConnected client w = (r1, c1, w1)" by (metis prod_cases3)
  show ?case
  proof (cases r1)
    case (Err e1)
    then have "ensureConnectedWithRetries_loop client n i w =
               ensureConnectedWithRetries_loop c1 n (i + 1) (time_Sleep 2 w1)"
      using lt ec by (subst ensureConnectedWithRetries_loop.simps) simp
    then show ?thesis using Suc.hyps(1) [OF m] ec Err sm m by simp
  qed (use lt ec sm in \<open>simp_all add: ensureConnectedWithRetries_loop.simps [of client n i w]\<close>)
qed

lemma loop_done:
  assumes "\<And>e. r \<noteq> Err e"
  shows "(ensureConnectedWithRetries_loop client n i w = (r, client', w')) =
     (\<exists>k<nat (n - i). \<exists>c1 w1. failed_attempts k client w = Some (c1, w1) \<and>
         ensureConnected c1 w1 = (r, client', w'))"
proof (induction "nat (n - i)" arbitrary: i client w)
  case 0
  then have "\<not> i < n" by simp
  then show ?case using 0 assms by (auto simp: ensureConnectedWithRetries_loop.simps)
next
  case (Suc m)
  then have lt: "i < n" and m: "m = nat (n - (i + 1))" by linarith+
  have sm: "nat (n - i) = Suc m" using Suc.hyps(2) by simp
  obtain r1 c1 w1 where ec: "ensureConnected client w = (r1, c1, w1)" by (metis prod_cases3)
  show ?case
  proof (cases r1)
    case (Err e1)
    then have "ensureConnectedWithRetries_loop client n i w =
               ensureConnectedWithRetries_loop c1 n (i + 1) (time_Sleep 2 w1)"
      using lt ec by (subst ensureConnectedWithRetries_loop.simps) simp
    moreover have "Err e1 \<noteq> r" using assms by auto
    ultimately show ?thesis using Suc.hyps(1) [OF m] ec Err sm m
      by (simp add: Ex_less_Suc2)
  next
    case (Ok u)
    then have "ensureConnectedWithRetries_loop client n i w = (Ok (), c1, w1)"
      using lt ec by (subst ensureConnectedWithRetries_loop.simps) simp
    then show ?thesis using ec Ok sm by (auto simp: Ex_less_Suc2)
  next
    case Panic
    then have "ensureConnectedWithRetries_loop client n i w = (Panic, c1, w1)"
      using lt ec by (subst ensureConnectedWithRetries_loop.simps) simp
    then show ?thesis using ec Panic sm by (auto simp: Ex_less_Suc2)
  qed
qed

text \<open>
  C4, as amended. For every \<open>n\<close>, \<open>ensureConnectedWithRetries n\<close> returns an error exactly
  when \<open>n\<close> attempts of ensureConnected in a row fail (none at all when \<open>n \<le> 0\<close>), each followed
  by a sleep of two seconds, the last one included; the error is then the new error
  "failed to reconnect after n attempts", which does not carry the error of
  ensureConnected. It returns success (or propagates a panic) exactly when, after fewer
  than \<open>n\<close> failed attempts, the next attempt succeeds (or panics), with the state that
  this attempt left and with no further attempt or sleep.
\<close>

theorem ensureConnectedWithRetries_outcome:
  "((ensureConnectedWithRetries client n w = (Err e, client', w')) =
      (e = ErrorfAttempts n \<and> failed_attempts (nat n) client w = Some (client', w')))
   \<and> ((ensureConnectedWithRetries client n w = (Ok (), client', w')) =
      (\<exists>k<nat n. \<exists>c1 w1. failed_attempts k client w = Some (c1, w1) \<and>
          ensureConnected c1 w1 = (Ok (), client', w')))
   \<and> ((ensureConnectedWithRetries client n w = (Panic, client', w')) =
      (\<exists>k<nat n. \<exists>c1 w1. failed_attempts k client w = Some (c1, w1) \<and>
          ensureConnected c1 w1 = (Panic, client', w')))"
  using loop_err [of client n 0 w e client' w'] loop_done [of "Ok ()" client n 0 w client' w']
    loop_done [of Panic client n 0 w client' w']
  by (simp add: ensureConnectedWithRetries_def)

text \<open>
  C4 as stated fails: with a server that cannot be reached, every attempt of
  ensureConnected returns "failed to dial: ..." while \<open>ensureConnectedWithRetries 2\<close>
  returns "failed to reconnect after 2 attempts", after two dials and two sleeps.
\<close>

theorem ensureConnectedWithRetries_fresh_error:
  "ensureConnected (Some fresh_client) world_unreachable =
     (Err (Wrapf ''failed to dial'' (LibErr OtherFailure)), Some fresh_client,
      world_unreachable\<lparr>trace := [SshDial ''h:22'' dial_config]\<rparr>)
   \<and> ensureConnectedWithRetries (Some fresh_client) 2 world_unreachable =
     (Err (ErrorfAttempts 2), Some fresh_client,
      world_unreachable\<lparr>trace := [SshDial ''h:22'' dial_config, Sleep 2,
                                   SshDial ''h:22'' dial_config, Sleep 2]\<rparr>)"
  by (simp add: ensureConnectedWithRetries_def ensureConnectedWithRetries_loop.simps conn_defs
      fresh_client_def world_unreachable_def params0_def dial_config_def Let_def)

subsection \<open>What a liveness check leaves unchanged\<close>

lemma session_step_refl: "session_step w w"
  by (simp add: session_step_def added_def)

lemma added_append:
  assumes "trace w1 = trace w @ added w w1" "trace w2 = trace w1 @ added w1 w2"
  shows "added w w2 = added w w1 @ added w1 w2"
proof -
  have le: "length (trace w) \<le> length (trace w1)"
    using assms(1) by (metis le_add1 length_append)
  have "added w w2 = drop (length (trace w)) (trace w2)"
    by (simp add: added_def)
  also have "\<dots> = drop (length (trace w)) (trace w1 @ added w1 w2)"
    by (subst assms(2)) (rule refl)
  also have "\<dots> = drop (length (trace w)) (trace w1) @ added w1 w2"
    using le by simp
  also have "\<dots> = added w w1 @ added w1 w2"
    by (simp add: added_def)
  finally show ?thesis .
qed

lemma session_step_trans:
  assumes "session_step w w1" "session_step w1 w2"
  shows "session_step w w2"
proof -
  have a: "added w w2 = added w w1 @ added w1 w2"
    using assms by (intro added_append) (simp_all add: session_step_def)
  have "trace w2 = trace w @ added w w1 @ added w1 w2"
    using assms by (metis append.assoc session_step_def)
  then show ?thesis
    using assms unfolding session_step_def a by simp
qed

lemma session_step_emit: "session_event e \<Longrightarrow> session_step w0 w \<Longrightarrow> session_step w0 (emit e w)"
  by (rule session_step_trans [where ?w1.0 = w]) (simp_all add: session_step_def added_def)

lemma session_step_handles [simp]:
  "session_step w0 (w\<lparr>live := X\<rparr>) = session_step w0 w"
  "session_step w0 (w\<lparr>next_handle := n\<rparr>) = session_step w0 w"
  by (simp_all add: session_step_def added_def)

lemma os_ReadFile_stepK:
  "os_ReadFile q w = (r, w') \<Longrightarrow> session_step w0 w \<Longrightarrow> session_step w0 w'"
  by (auto simp: os_ReadFile_def Let_def split: option.splits prod.splits simp: session_step_emit)

lemma parse_signer_stepK:
  "parse_signer p key w = (r, w') \<Longrightarrow> session_step w0 w \<Longrightarrow> session_step w0 w'"
  by (auto simp: parse_signer_def ssh_ParsePrivateKey_def ssh_ParsePrivateKeyWithPassphrase_def Let_def
      split: option.splits prod.splits if_splits simp: session_step_emit)

lemma auth_methods_stepK:
  assumes "auth_methods p w = (r, w')" "session_step w0 w"
  shows "session_step w0 w'"
proof -
  have "session_step w0 (snd (auth_methods p w))"
    unfolding auth_methods_def Let_def using assms(2)
    by (auto split: prod.split result.split intro: os_ReadFile_stepK parse_signer_stepK)
  then show ?thesis using assms(1) by simp
qed

lemma close_previous_stepK: "session_step w0 w \<Longrightarrow> session_step w0 (close_previous c w)"
  by (auto simp: close_previous_def sftp_Client_Close_def ssh_Client_Close_def Let_def
        session_step_emit split: option.split)

lemma ssh_Client_Close_stepK: "session_step w0 w \<Longrightarrow> session_step w0 (ssh_Client_Close h w)"
  by (auto simp: ssh_Client_Close_def session_step_emit)

lemma ssh_Dial_stepK:
  "ssh_Dial addr cfg w = (r, w') \<Longrightarrow> session_step w0 w \<Longrightarrow> session_step w0 w'"
  by (auto simp: ssh_Dial_def new_handle_def Let_def session_step_emit
      split: option.splits prod.splits)

lemma sftp_NewClient_stepK:
  "sftp_NewClient conn w = (r, w') \<Longrightarrow> session_step w0 w \<Longrightarrow> session_step w0 w'"
  by (auto simp: sftp_NewClient_def new_handle_def Let_def session_step_emit
      split: option.splits prod.splits if_splits)

lemma ReConnect_stepK:
  assumes "ReConnect client w = (r, client', w')" "session_step w0 w"
  shows "session_step w0 w'"
proof -
  have "session_step w0 (snd (snd (ReConnect client w)))"
    unfolding ReConnect_def Let_def using assms(2)
    apply (simp split: option.split prod.split result.split)
    apply (intro conjI impI allI)
    apply (blast intro: close_previous_stepK auth_methods_stepK ssh_Dial_stepK sftp_NewClient_stepK
          ssh_Client_Close_stepK)+
    done
  then show ?thesis using assms(1) by simp
qed

lemma sftp_ReadDir_stepK:
  "sftp_ReadDir ho p w = (r, w') \<Longrightarrow> session_step w0 w \<Longrightarrow> session_step w0 w'"
  by (auto simp: sftp_ReadDir_def sftp_call_def Let_def
      split: option.splits prod.splits if_splits rnode.splits simp: session_step_emit)

lemma isConnected_stepK:
  assumes "isConnected client w = (b, w')" "session_step w0 w"
  shows "session_step w0 w'"
proof -
  have "session_step w0 (snd (isConnected client w))"
    unfolding isConnected_def using assms(2)
    by (auto split: option.split prod.split result.split intro: sftp_ReadDir_stepK)
  then show ?thesis using assms(1) by simp
qed

lemma ensureConnected_stepK:
  assumes "ensureConnected client w = (r, client', w')" "session_step w0 w"
  shows "session_step w0 w'"
proof -
  have rc: "session_step w0 v \<Longrightarrow> session_step w0 (snd (snd (ReConnect client v)))" for v
    using ReConnect_stepK [of client v] by (metis prod.collapse)
  have "session_step w0 (snd (snd (ensureConnected client w)))"
    unfolding ensureConnected_def using assms(2)
    by (auto split: prod.split bool.split intro: isConnected_stepK rc)
  then show ?thesis using assms(1) by simp
qed

lemma time_Sleep_stepK: "session_step w0 w \<Longrightarrow> session_step w0 (time_Sleep n w)"
  by (simp add: time_Sleep_def session_step_emit)

lemma loop_stepK:
  "ensureConnectedWithRetries_loop client n i w = (r, client', w') \<Longrightarrow> session_step w0 w \<Longrightarrow>
     session_step w0 w'"
proof (induction client n i w rule: ensureConnectedWithRetries_loop.induct)
  case (1 client retries i w)
  show ?case
  proof (cases "i < retries")
    case False
    then show ?thesis using "1.prems" by (simp add: ensureConnectedWithRetries_loop.simps)
  next
    case True
    obtain r1 c1 w1 where ec: "ensureConnected client w = (r1, c1, w1)" by (metis prod_cases3)
    have s1: "session_step w0 w1" using ensureConnected_stepK [OF ec "1.prems"(2)] .
    show ?thesis
    proof (cases r1)
      case (Err e)
      have "ensureConnectedWithRetries_loop c1 retries (i + 1) (time_Sleep 2 w1) = (r, client', w')"
        using "1.prems"(1) True ec Err
        by (subst (asm) ensureConnectedWithRetries_loop.simps) simp
      then show ?thesis
        using "1.IH" [OF True ec [symmetric] _ refl] Err time_Sleep_stepK [OF s1] by simp
    qed (use "1.prems"(1) True ec s1 in
          \<open>simp_all add: ensureConnectedWithRetries_loop.simps [of client retries i w]\<close>)
  qed
qed

lemma ensureConnectedWithRetries_stepK:
  "ensureConnectedWithRetries client n w = (r, client', w') \<Longrightarrow> session_step w0 w \<Longrightarrow>
     session_step w0 w'"
  unfolding ensureConnectedWithRetries_def by (rule loop_stepK)

subsection \<open>Downloads that stop after the stats\<close>

lemmas prim_defs = os_Stat_def os_Open_def os_OpenFile_append_def os_Create_def os_File_Seek_def
  os_File_Close_def local_content_def os_File_Read_def os_File_Write_def
  sftp_Stat_def sftp_Mkdir_def sftp_Remove_def sftp_RemoveDirectory_def sftp_Rename_def
  sftp_Open_def open_truncating_def sftp_OpenFile_trunc_def sftp_Create_def remote_content_def
  write_at_def sftp_File_Seek_def sftp_File_Close_def sftp_File_Read_def sftp_File_Write_def
  io_Copy_to_remote_def io_Copy_to_local_def node_info_def base_name_def strings_Split_def
  handle_of_def





lemma sftp_Stat_Ok:
  "sftp_Stat ho p w = (Ok info, w') \<Longrightarrow>
     \<exists>h node. ho = Some h \<and> w' = emit (SftpStat h p) w \<and> map_of (remotefs w) p = Some node \<and>
              info = node_info (base_name p) node"
  by (auto simp: sftp_Stat_def sftp_call_def Let_def split: option.splits if_splits)

lemma sftp_Stat_Err:
  "sftp_Stat ho p w = (Err e, w') \<Longrightarrow> \<exists>h. ho = Some h \<and> w' = emit (SftpStat h p) w"
  by (auto simp: sftp_Stat_def sftp_call_def Let_def split: option.splits if_splits)


lemma session_step_parts:
  "session_step w w' \<Longrightarrow>
     trace w' = trace w @ added w w' \<and> list_all session_event (added w w') \<and>
     localfs w' = localfs w \<and> remotefs w' = remotefs w \<and> faults w' = faults w"
  by (simp add: session_step_def)

text \<open>
  C7. Once the liveness check of DownloadFile has succeeded, a failing stat of the remote
  path decides the call: a permission-denied error makes DownloadFile return success,
  any other error is returned wrapped in "failed to get remote file info". In both
  cases the only calls made are those of the liveness check followed by the one stat:
  no remote file is opened, no byte is moved, and the local and the remote files are
  as they were.
\<close>

theorem DownloadFile_stat_failure:
  assumes conn: "ensureConnectedWithRetries (Some c) 3 w = (Ok (), client1, w1)"
      and stat: "sftp_Stat (handle_of client1) remotePath w1 = (Err err, w2)"
  shows "DownloadFile (Some c) remotePath localPath w =
           (if IsPermission err then Ok () else Err (Wrapf ''failed to get remote file info'' err),
            client1, w2)
         \<and> (\<exists>h. trace w2 = trace w @ added w w1 @ [SftpStat h remotePath])
         \<and> list_all session_event (added w w1)
         \<and> localfs w2 = localfs w \<and> remotefs w2 = remotefs w"
proof -
  have s: "session_step w w1"
    using ensureConnectedWithRetries_stepK [OF conn session_step_refl] .
  obtain h where h: "w2 = emit (SftpStat h remotePath) w1"
    using sftp_Stat_Err [OF stat] by blast
  have "DownloadFile (Some c) remotePath localPath w =
           (if IsPermission err then Ok () else Err (Wrapf ''failed to get remote file info'' err),
            client1, w2)"
    using conn stat by (simp add: DownloadFile_def)
  then show ?thesis using session_step_parts [OF s] h by auto
qed


subsection \<open>The nil client\<close>

lemma CreateRemoteDirRecursive_loop_nil:
  "CreateRemoteDirRecursive_loop None dirs cur w = (Ok (), w) \<or>
   (\<exists>q. CreateRemoteDirRecursive_loop None dirs cur w =
          (Err (ErrorfCreateDir q (Errorf ''SFTPClient is nil'')), w))"
  by (induction dirs arbitrary: cur) (auto simp: FolderExists_def MakeDir_def Let_def)

text \<open>
  C10. With a nil client, each of UploadFile, DownloadFile, RemoveFile, MoveFile, List,
  MakeDir, RemoveDir, MoveDir, ListDirs, ListFiles, ListFilesAndFolders, WalkFile,
  FileInfo, UploadFileWithProgress and DownloadFileWithProgress returns the error
  "SFTPClient is nil" and leaves the world as it is (no call is made); FolderExists and
  FileExists return false. ReConnect and CreateRemoteDirRecursive have no such guard:
  ReConnect on a nil client panics, and CreateRemoteDirRecursive never returns that
  error itself: it succeeds on the empty path, and on a path with a component it
  reports the failure of MakeDir.
\<close>

theorem nil_client_guard:
  "UploadFile None localPath remotePath w = (Err (Errorf ''SFTPClient is nil''), None, w)
   \<and> DownloadFile None remotePath localPath w = (Err (Errorf ''SFTPClient is nil''), None, w)
   \<and> RemoveFile None remotePath w = (Err (Errorf ''SFTPClient is nil''), w)
   \<and> MoveFile None oldPath newPath w = (Err (Errorf ''SFTPClient is nil''), w)
   \<and> List None remotePath w = (Err (Errorf ''SFTPClient is nil''), w)
   \<and> MakeDir None remotePath w = (Err (Errorf ''SFTPClient is nil''), w)
   \<and> RemoveDir None remotePath w = (Err (Errorf ''SFTPClient is nil''), w)
   \<and> MoveDir None oldPath newPath w = (Err (Errorf ''SFTPClient is nil''), w)
   \<and> ListDirs None remotePath w = (Err (Errorf ''SFTPClient is nil''), w)
   \<and> ListFiles None remotePath w = (Err (Errorf ''SFTPClient is nil''), w)
   \<and> ListFilesAndFolders None remotePath w = (Err (Errorf ''SFTPClient is nil''), w)
   \<and> WalkFile (Suc fuel) None remotePath walkFn w = Some (Err (Errorf ''SFTPClient is nil''), w)
   \<and> FileInfo None remotePath w = (Err (Errorf ''SFTPClient is nil''), w)
   \<and> UploadFileWithProgress None localPath remotePath w = (Err (Errorf ''SFTPClient is nil''), None, w)
   \<and> DownloadFileWithProgress None remotePath localPath w =
        (Err (Errorf ''SFTPClient is nil''), None, w)
   \<and> FolderExists None remotePath w = (Ok False, w)
   \<and> FileExists None remotePath w = (Ok False, w)
   \<and> ReConnect None w = (Panic, None, w)
   \<and> CreateRemoteDirRecursive None remotePath w \<noteq> (Err (Errorf ''SFTPClient is nil''), w)
   \<and> CreateRemoteDirRecursive None [] w = (Ok (), w)
   \<and> CreateRemoteDirRecursive None ''a/b'' w =
        (Err (ErrorfCreateDir ''a'' (Errorf ''SFTPClient is nil'')), w)"
proof -
  have a: "CreateRemoteDirRecursive None remotePath w \<noteq> (Err (Errorf ''SFTPClient is nil''), w)"
    unfolding CreateRemoteDirRecursive_def
    using CreateRemoteDirRecursive_loop_nil
      [of "strings_Split remotePath filepath_Separator" "[]" w]
    by auto
  have b: "CreateRemoteDirRecursive None [] w = (Ok (), w)"
    by (simp add: CreateRemoteDirRecursive_def strings_Split_def)
  have c: "CreateRemoteDirRecursive None ''a/b'' w =
        (Err (ErrorfCreateDir ''a'' (Errorf ''SFTPClient is nil'')), w)"
    by (simp add: CreateRemoteDirRecursive_def strings_Split_def filepath_Separator_def
        FolderExists_def MakeDir_def)
  show ?thesis
    using a b c
    by (simp add: UploadFile_def DownloadFile_def RemoveFile_def MoveFile_def List_def MakeDir_def
        RemoveDir_def MoveDir_def ListDirs_def ListFiles_def ListFilesAndFolders_def FileInfo_def
        UploadFileWithProgress_def DownloadFileWithProgress_def FolderExists_def FileExists_def
        ReConnect_def)
qed

text \<open>C7 at a remote file whose stat is denied: success, and only two calls made.\<close>

theorem DownloadFile_stat_failure_witness:
  "DownloadFile (Some connected_client) ''r'' ''l'' stat_denied_world =
     (Ok (), Some connected_client,
      stat_denied_world\<lparr>trace := [SftpReadDir 2 ''.'', SftpStat 2 ''r'']\<rparr>)
   \<and> localfs (stat_denied_world\<lparr>trace := [SftpReadDir 2 ''.'', SftpStat 2 ''r'']\<rparr>) =
       localfs stat_denied_world"
proof -
  have conn: "ensureConnectedWithRetries (Some connected_client) 3 stat_denied_world =
      (Ok (), Some connected_client, stat_denied_world\<lparr>trace := [SftpReadDir 2 ''.'']\<rparr>)"
    by (simp add: ensureConnectedWithRetries_def ensureConnectedWithRetries_loop.simps conn_defs
        stat_denied_world_def connected_client_def Let_def
      cong: eval_cong)
  have stat: "sftp_Stat (handle_of (Some connected_client)) ''r''
        (stat_denied_world\<lparr>trace := [SftpReadDir 2 ''.'']\<rparr>) =
      (Err (LibErr Permission),
       stat_denied_world\<lparr>trace := [SftpReadDir 2 ''.'', SftpStat 2 ''r'']\<rparr>)"
    by (simp add: prim_defs conn_defs stat_denied_world_def connected_client_def Let_def
      cong: eval_cong)
  show ?thesis
    using DownloadFile_stat_failure [OF conn stat, of "''l''"] by simp
qed

subsection \<open>A resumed upload\<close>

text \<open>
  C1 at a resumed upload: the local file has ten bytes, the remote file holds the first
  four. UploadFile stats the remote file, seeks the local file to offset 4, opens the
  remote file truncating it and copies the six remaining bytes. The call succeeds and
  the remote file is left with these six bytes only, not with the ten bytes the claim
  states.
\<close>

theorem UploadFile_resume_loses_prefix:
  "UploadFile (Some connected_client) ''l'' ''r'' upload_world =
     (Ok (), Some connected_client,
      upload_world
        \<lparr>trace := [SftpReadDir 2 ''.'', OsStat ''l'', SftpStat 2 ''r'', OsOpen ''l'', OsSeek ''l'' 4,
                   SftpOpenTrunc 2 ''r'', CopyToRemote ''l'' ''r'', SftpFileClose ''r'', OsClose ''l''],
         remotefs := [(''.'', RDir), (''r'', RFile ''456789'')]\<rparr>)
   \<and> local_content upload_world ''l'' = ''0123456789''
   \<and> remote_content upload_world ''r'' = Some ''0123''"
  by (simp add: UploadFile_def UploadFile_copy_def conn_defs prim_defs upload_world_def
      connected_client_def params0_def Let_def
      cong: eval_cong)

subsection \<open>Listing failures in a walk\<close>

lemma sftp_call_world:
  assumes "sftp_call ho ev answer w = (r, w')" "r \<noteq> Panic" "\<And>h v. snd (answer h v) = v"
  shows "\<exists>h. ho = Some h \<and> w' = emit (ev h) w"
proof (cases ho)
  case None
  then show ?thesis using assms by (simp add: sftp_call_def)
next
  case (Some h)
  have "snd (sftp_call (Some h) ev answer w) = emit (ev h) w"
    by (simp add: sftp_call_def Let_def assms(3) split: option.split)
  then have "w' = emit (ev h) w" unfolding Some [symmetric] assms(1) by simp
  then show ?thesis using Some by blast
qed

lemma sftp_ReadDir_Err:
  assumes "sftp_ReadDir ho p w = (Err e, w')"
  shows "\<exists>h. ho = Some h \<and> w' = emit (SftpReadDir h p) w"
  by (rule sftp_call_world [OF assms [unfolded sftp_ReadDir_def]])
     (simp_all split: option.split rnode.split)

lemma normalize_changes:
  "(normalize remotePath \<noteq> remotePath) = (length remotePath > 1 \<and> hd remotePath = CHR ''/'')"
  by (cases remotePath) (auto simp: normalize_def)

text \<open>
  C5, as amended. When the first listing of WalkFile fails (with fuel for at least this
  call), one listing call has been made and: a permission-denied or not-found error
  makes WalkFile return success with nothing visited; any other error is retried once,
  with the normalized path, only when normalization changed the path, that is when the
  path has two or more characters and begins with a slash. Then a retry that fails
  aborts the walk with "failed to list directory after retry" after exactly two listing
  calls, and a retry that succeeds continues with the entries it returned. When the
  path is not changed by normalization, there is no retry: the walk aborts at once with
  "failed to list directory". An error stops the recursion entirely: the error of a
  nested walk is returned at once by the loop over the entries of the directory above,
  in the world in which the nested walk failed, so that no later entry is visited or
  listed; and an error of that loop is returned by the walk of that directory.
\<close>

theorem WalkFile_listing_failure:
  assumes ls: "sftp_ReadDir (sftpClient c) (normalize remotePath) w = (Err err, w1)"
  shows "(\<exists>h. sftpClient c = Some h \<and> w1 = emit (SftpReadDir h (normalize remotePath)) w)
    \<and> (IsPermission err \<or> IsNotExist err \<longrightarrow>
         WalkFile (Suc fuel) (Some c) remotePath walkFn w = Some (Ok (), w1))
    \<and> (\<not> IsPermission err \<and> \<not> IsNotExist err \<and> normalize remotePath = remotePath \<longrightarrow>
         WalkFile (Suc fuel) (Some c) remotePath walkFn w =
           Some (Err (Wrapf ''failed to list directory'' err), w1))
    \<and> (\<not> IsPermission err \<and> \<not> IsNotExist err \<and> normalize remotePath \<noteq> remotePath \<longrightarrow>
         (\<forall>err2 w2. sftp_ReadDir (sftpClient c) (normalize remotePath) w1 = (Err err2, w2) \<longrightarrow>
            WalkFile (Suc fuel) (Some c) remotePath walkFn w =
              Some (Err (Wrapf ''failed to list directory after retry'' err2), w2)
            \<and> trace w2 = trace w @ [SftpReadDir (the (sftpClient c)) (normalize remotePath),
                                     SftpReadDir (the (sftpClient c)) (normalize remotePath)])
         \<and> (\<forall>files w2. sftp_ReadDir (sftpClient c) (normalize remotePath) w1 = (Ok files, w2) \<longrightarrow>
            WalkFile (Suc fuel) (Some c) remotePath walkFn w =
              WalkFile_entries fuel (Some c) (normalize remotePath) walkFn files w2))
    \<and> (normalize remotePath \<noteq> remotePath) = (length remotePath > 1 \<and> hd remotePath = CHR ''/'')
    \<and> (\<forall>n q file files v v1 e v2.
          walkFn (q @ ''/'' @ fi_Name file) file (emit (Visit (q @ ''/'' @ fi_Name file) file) v) =
            (Ok (), v1) \<and>
          fi_IsDir file \<and>
          WalkFile n (Some c) (q @ ''/'' @ fi_Name file) walkFn v1 = Some (Err e, v2) \<longrightarrow>
          WalkFile_entries n (Some c) q walkFn (file # files) v = Some (Err e, v2))
    \<and> (\<forall>n p files v v1 e v2.
          sftp_ReadDir (sftpClient c) (normalize p) v = (Ok files, v1) \<and>
          WalkFile_entries n (Some c) (normalize p) walkFn files v1 = Some (Err e, v2) \<longrightarrow>
          WalkFile (Suc n) (Some c) p walkFn v = Some (Err e, v2))"
proof -
  obtain h where h: "sftpClient c = Some h" "w1 = emit (SftpReadDir h (normalize remotePath)) w"
    using sftp_ReadDir_Err [OF ls] by blast
  have retry: "trace w2 = trace w @ [SftpReadDir h (normalize remotePath),
                                     SftpReadDir h (normalize remotePath)]"
    if "sftp_ReadDir (sftpClient c) (normalize remotePath) w1 = (Err err2, w2)" for err2 w2
  proof -
    from sftp_ReadDir_Err [OF that] obtain h2 where
      h2: "sftpClient c = Some h2" "w2 = emit (SftpReadDir h2 (normalize remotePath)) w1"
      by blast
    have "h2 = h" using h(1) h2(1) by simp
    then show ?thesis unfolding h2(2) h(2) by simp
  qed
  have skip: "WalkFile (Suc fuel) (Some c) remotePath walkFn w = Some (Ok (), w1)"
    if "IsPermission err \<or> IsNotExist err"
    using that ls by (auto simp: Let_def)
  have stop: "WalkFile (Suc fuel) (Some c) remotePath walkFn w =
           Some (Err (Wrapf ''failed to list directory'' err), w1)"
    if "\<not> IsPermission err" "\<not> IsNotExist err" "normalize remotePath = remotePath"
    using that ls by (simp add: Let_def)
  have again: "WalkFile (Suc fuel) (Some c) remotePath walkFn w =
              Some (Err (Wrapf ''failed to list directory after retry'' err2), w2)"
    if "\<not> IsPermission err" "\<not> IsNotExist err" "normalize remotePath \<noteq> remotePath"
      "sftp_ReadDir (sftpClient c) (normalize remotePath) w1 = (Err err2, w2)" for err2 w2
    using that ls by (simp add: Let_def)
  have entries: "WalkFile (Suc fuel) (Some c) remotePath walkFn w =
              WalkFile_entries fuel (Some c) (normalize remotePath) walkFn files w2"
    if "\<not> IsPermission err" "\<not> IsNotExist err" "normalize remotePath \<noteq> remotePath"
      "sftp_ReadDir (sftpClient c) (normalize remotePath) w1 = (Ok files, w2)" for files w2
    using that ls by (simp add: Let_def)
  have the_h: "the (sftpClient c) = h" using h(1) by simp
  have first: "(\<exists>h. sftpClient c = Some h \<and> w1 = emit (SftpReadDir h (normalize remotePath)) w)
    \<and> (IsPermission err \<or> IsNotExist err \<longrightarrow>
         WalkFile (Suc fuel) (Some c) remotePath walkFn w = Some (Ok (), w1))
    \<and> (\<not> IsPermission err \<and> \<not> IsNotExist err \<and> normalize remotePath = remotePath \<longrightarrow>
         WalkFile (Suc fuel) (Some c) remotePath walkFn w =
           Some (Err (Wrapf ''failed to list directory'' err), w1))
    \<and> (\<not> IsPermission err \<and> \<not> IsNotExist err \<and> normalize remotePath \<noteq> remotePath \<longrightarrow>
         (\<forall>err2 w2. sftp_ReadDir (sftpClient c) (normalize remotePath) w1 = (Err err2, w2) \<longrightarrow>
            WalkFile (Suc fuel) (Some c) remotePath walkFn w =
              Some (Err (Wrapf ''failed to list directory after retry'' err2), w2)
            \<and> trace w2 = trace w @ [SftpReadDir (the (sftpClient c)) (normalize remotePath),
                                     SftpReadDir (the (sftpClient c)) (normalize remotePath)])
         \<and> (\<forall>files w2. sftp_ReadDir (sftpClient c) (normalize remotePath) w1 = (Ok files, w2) \<longrightarrow>
            WalkFile (Suc fuel) (Some c) remotePath walkFn w =
              WalkFile_entries fuel (Some c) (normalize remotePath) walkFn files w2))
    \<and> (normalize remotePath \<noteq> remotePath) = (length remotePath > 1 \<and> hd remotePath = CHR ''/'')"
    unfolding the_h
    using h skip stop again entries retry normalize_changes [of remotePath]
    by blast
  have up: "WalkFile_entries n (Some c) q walkFn (ent # ents) v = Some (Err e, v2)"
    if "walkFn (q @ ''/'' @ fi_Name ent) ent (emit (Visit (q @ ''/'' @ fi_Name ent) ent) v) =
            (Ok (), v1)" "fi_IsDir ent"
       "WalkFile n (Some c) (q @ ''/'' @ fi_Name ent) walkFn v1 = Some (Err e, v2)"
    for n q ent ents v v1 e v2
    using that by (simp add: Let_def)
  have out: "WalkFile (Suc n) (Some c) p walkFn v = Some (Err e, v2)"
    if "sftp_ReadDir (sftpClient c) (normalize p) v = (Ok files, v1)"
       "WalkFile_entries n (Some c) (normalize p) walkFn files v1 = Some (Err e, v2)"
    for n p files v v1 e v2
    using that by (simp add: Let_def)
  have up': "\<forall>n q file files v v1 e v2.
          walkFn (q @ ''/'' @ fi_Name file) file (emit (Visit (q @ ''/'' @ fi_Name file) file) v) =
            (Ok (), v1) \<and>
          fi_IsDir file \<and>
          WalkFile n (Some c) (q @ ''/'' @ fi_Name file) walkFn v1 = Some (Err e, v2) \<longrightarrow>
          WalkFile_entries n (Some c) q walkFn (file # files) v = Some (Err e, v2)"
    using up by blast
  have out': "\<forall>n p files v v1 e v2.
          sftp_ReadDir (sftpClient c) (normalize p) v = (Ok files, v1) \<and>
          WalkFile_entries n (Some c) (normalize p) walkFn files v1 = Some (Err e, v2) \<longrightarrow>
          WalkFile (Suc n) (Some c) p walkFn v = Some (Err e, v2)"
    using out by blast
  show ?thesis
    using first up' out' by (intro conjI) (elim conjE, assumption)+
qed

text \<open>
  C5 as stated fails: on the path "root", which has no leading slash, a listing error
  other than permission-denied or not-found aborts the walk after a single listing
  call; there is no retry.
\<close>

theorem WalkFile_no_retry_without_slash:
  "WalkFile 1 (Some connected_client) ''root'' noop_visitor listing_fails_world =
     Some (Err (Wrapf ''failed to list directory'' (LibErr OtherFailure)),
           listing_fails_world\<lparr>trace := [SftpReadDir 2 ''root'']\<rparr>)"
  by (simp add: sftp_ReadDir_def sftp_call_def fault_now_def emit_def normalize_def
      connected_client_def listing_fails_world_def Let_def
      cong: eval_cong)

text \<open>
  C5 on the path "/root" with a server that fails every listing: one retry, then abort.
  And on the tree \<^verbatim>\<open>root/{sub/, z}\<close> when the listing of "root/sub" fails: the error of the
  nested walk comes out of the walk of "root", and "root/z" is not visited.
\<close>

theorem WalkFile_listing_failure_witness:
  "WalkFile 1 (Some connected_client) ''/root'' noop_visitor listing_fails_world =
     Some (Err (Wrapf ''failed to list directory after retry'' (LibErr OtherFailure)),
           listing_fails_world\<lparr>trace := [SftpReadDir 2 ''root'', SftpReadDir 2 ''root'']\<rparr>)
   \<and> normalize ''/root'' = ''root''
   \<and> WalkFile 2 (Some connected_client) ''root'' noop_visitor sub_listing_fails_world =
     Some (Err (Wrapf ''failed to list directory'' (LibErr OtherFailure)),
           sub_listing_fails_world
             \<lparr>trace := [SftpReadDir 2 ''root'',
                        Visit ''root/sub'' \<lparr>fi_Name = ''sub'', fi_Size = 0, fi_IsDir = True\<rparr>,
                        SftpReadDir 2 ''root/sub'']\<rparr>)"
proof -
  have n: "normalize ''/root'' = ''root''" "normalize ''root'' = ''root''"
    "normalize ''root/sub'' = ''root/sub''"
    by (simp_all add: normalize_def)
  have ls: "sftp_ReadDir (sftpClient connected_client) (normalize ''/root'') listing_fails_world =
      (Err (LibErr OtherFailure), listing_fails_world\<lparr>trace := [SftpReadDir 2 ''root'']\<rparr>)"
    by (simp add: n sftp_ReadDir_def sftp_call_def fault_now_def emit_def
        connected_client_def listing_fails_world_def Let_def
      cong: eval_cong)
  have ls2: "sftp_ReadDir (sftpClient connected_client) (normalize ''/root'')
        (listing_fails_world\<lparr>trace := [SftpReadDir 2 ''root'']\<rparr>) =
      (Err (LibErr OtherFailure),
       listing_fails_world\<lparr>trace := [SftpReadDir 2 ''root'', SftpReadDir 2 ''root'']\<rparr>)"
    by (simp add: n sftp_ReadDir_def sftp_call_def fault_now_def emit_def
        connected_client_def listing_fails_world_def Let_def
      cong: eval_cong)
  note t = WalkFile_listing_failure [OF ls, where fuel = 0 and walkFn = noop_visitor]
  have one: "WalkFile 1 (Some connected_client) ''/root'' noop_visitor listing_fails_world =
     Some (Err (Wrapf ''failed to list directory after retry'' (LibErr OtherFailure)),
           listing_fails_world\<lparr>trace := [SftpReadDir 2 ''root'', SftpReadDir 2 ''root'']\<rparr>)"
    using conjunct1 [OF conjunct2 [OF conjunct2 [OF conjunct2 [OF t]]]] ls2 n
    by simp
  let ?sub = "\<lparr>fi_Name = ''sub'', fi_Size = 0, fi_IsDir = True\<rparr>"
  let ?z = "\<lparr>fi_Name = ''z'', fi_Size = 1, fi_IsDir = False\<rparr>"
  let ?wa = "sub_listing_fails_world\<lparr>trace := [SftpReadDir 2 ''root'']\<rparr>"
  let ?wb = "sub_listing_fails_world\<lparr>trace := [SftpReadDir 2 ''root'', Visit ''root/sub'' ?sub]\<rparr>"
  let ?wc = "sub_listing_fails_world
               \<lparr>trace := [SftpReadDir 2 ''root'', Visit ''root/sub'' ?sub, SftpReadDir 2 ''root/sub'']\<rparr>"
  have top: "sftp_ReadDir (sftpClient connected_client) (normalize ''root'') sub_listing_fails_world =
      (Ok [?sub, ?z], ?wa)"
    by (simp add: n sftp_ReadDir_def sftp_call_def fault_now_def emit_def children_def
        child_entry_def node_info_def connected_client_def sub_listing_fails_world_def Let_def
      cong: eval_cong)
  have vis: "noop_visitor (''root'' @ ''/'' @ fi_Name ?sub) ?sub
               (emit (Visit (''root'' @ ''/'' @ fi_Name ?sub) ?sub) ?wa) = (Ok (), ?wb)"
    by (simp add: noop_visitor_def emit_def)
  have nested: "sftp_ReadDir (sftpClient connected_client) (normalize ''root/sub'') ?wb =
      (Err (LibErr OtherFailure), ?wc)"
    by (simp add: n sftp_ReadDir_def sftp_call_def fault_now_def emit_def
        connected_client_def sub_listing_fails_world_def Let_def
      cong: eval_cong)
  note u = WalkFile_listing_failure [OF nested, where fuel = 0 and walkFn = noop_visitor]
  have below: "WalkFile 1 (Some connected_client) (''root'' @ ''/'' @ fi_Name ?sub) noop_visitor ?wb =
      Some (Err (Wrapf ''failed to list directory'' (LibErr OtherFailure)), ?wc)"
    using conjunct1 [OF conjunct2 [OF conjunct2 [OF u]]] n by simp
  note up = conjunct1 [OF conjunct2 [OF conjunct2 [OF conjunct2 [OF conjunct2 [OF conjunct2 [OF u]]]]]]
  note out = conjunct2 [OF conjunct2 [OF conjunct2 [OF conjunct2 [OF conjunct2 [OF conjunct2 [OF u]]]]]]
  have loop: "WalkFile_entries 1 (Some connected_client) ''root'' noop_visitor [?sub, ?z] ?wa =
      Some (Err (Wrapf ''failed to list directory'' (LibErr OtherFailure)), ?wc)"
    using up [rule_format, of "''root''" ?sub ?wa ?wb 1 _ ?wc "[?z]"] vis below by simp
  have two: "WalkFile 2 (Some connected_client) ''root'' noop_visitor sub_listing_fails_world =
      Some (Err (Wrapf ''failed to list directory'' (LibErr OtherFailure)), ?wc)"
    using out [rule_format, of "''root''" sub_listing_fails_world "[?sub, ?z]" ?wa 1 _ ?wc] top loop n
    by (simp add: numeral_2_eq_2)
  show ?thesis using one two n(1) by simp
qed

subsection \<open>Creating a directory path: the calls made\<close>

lemma sftp_call_ok:
  "h \<in> live w \<Longrightarrow> faults w = (\<lambda>i. None) \<Longrightarrow>
     sftp_call (Some h) ev answer w = answer h (emit (ev h) w)"
  by (simp add: sftp_call_def fault_now_def Let_def)

lemma map_of_store_put: "map_of (store_put p n fs) = (map_of fs)(p \<mapsto> n)"
  by (induction fs) auto

lemma dom_store_put: "dom (map_of (store_put p n fs)) = insert p (dom (map_of fs))"
  by (simp add: map_of_store_put)

lemma CreateRemoteDirRecursive_loop_refines:
  "CreateRemoteDirRecursive_loop (Some c) dirs cur w =
     check_and_create (sftpClient c) (accumulate cur dirs) w"
proof (induction dirs arbitrary: cur w)
  case Nil
  show ?case by simp
next
  case (Cons d ds)
  show ?case
  proof (cases "d = []")
    case True
    then show ?thesis using Cons.IH by simp
  next
    case False
    define q where "q = (if cur = [] then d else filepath_Join cur d)"
    obtain r w1 where st: "sftp_Stat (sftpClient c) q w = (r, w1)"
      by (cases "sftp_Stat (sftpClient c) q w")
    have acc: "accumulate cur (d # ds) = q # accumulate q ds"
      using False by (cases "cur = []") (simp_all add: q_def Let_def)
    have unf: "CreateRemoteDirRecursive_loop (Some c) (d # ds) cur w =
        (case FolderExists (Some c) q w of
           (Panic, w1) \<Rightarrow> (Panic, w1)
         | (Err e, w1) \<Rightarrow> (Err e, w1)
         | (Ok True, w1) \<Rightarrow> CreateRemoteDirRecursive_loop (Some c) ds q w1
         | (Ok False, w1) \<Rightarrow>
             (case MakeDir (Some c) q w1 of
                (Err err, w2) \<Rightarrow> (Err (ErrorfCreateDir q err), w2)
              | (Panic, w2) \<Rightarrow> (Panic, w2)
              | (Ok u, w2) \<Rightarrow> CreateRemoteDirRecursive_loop (Some c) ds q w2))"
      unfolding q_def using False by (simp add: Let_def)
    show ?thesis
    proof (cases r)
      case (Ok info)
      have "FolderExists (Some c) q w = (Ok True, w1)"
        using st Ok by (simp add: FolderExists_def)
      then show ?thesis unfolding unf acc using st Ok Cons.IH by simp
    next
      case Panic
      have "FolderExists (Some c) q w = (Panic, w1)"
        using st Panic by (simp add: FolderExists_def)
      then show ?thesis unfolding unf acc using st Panic by simp
    next
      case (Err e)
      have fe: "FolderExists (Some c) q w = (Ok False, w1)"
        using st Err by (simp add: FolderExists_def)
      obtain r2 w2 where mk: "sftp_Mkdir (sftpClient c) q w1 = (r2, w2)"
        by (cases "sftp_Mkdir (sftpClient c) q w1")
      show ?thesis
      proof (cases r2)
        case (Ok u)
        have "MakeDir (Some c) q w1 = (Ok (), w2)"
          using mk Ok by (simp add: MakeDir_def)
        then show ?thesis unfolding unf acc using st Err fe mk Ok Cons.IH by simp
      next
        case Panic
        have "MakeDir (Some c) q w1 = (Panic, w2)"
          using mk Panic by (simp add: MakeDir_def)
        then show ?thesis unfolding unf acc using st Err fe mk Panic by simp
      next
        case e2: (Err e2)
        have "MakeDir (Some c) q w1 = (Err (Wrapf ''failed to create directory'' e2), w2)"
          using mk e2 by (simp add: MakeDir_def)
        then show ?thesis unfolding unf acc using st Err fe mk e2 by simp
      qed
    qed
  qed
qed

lemma stats_succeed_run:
  "stats_succeed (Some h) qs w \<Longrightarrow>
     check_and_create (Some h) qs w = (Ok (), w\<lparr>trace := trace w @ map (SftpStat h) qs\<rparr>)"
proof (induction qs arbitrary: w)
  case Nil
  show ?case by simp
next
  case (Cons q qs)
  obtain r w1 where st: "sftp_Stat (Some h) q w = (r, w1)" by (cases "sftp_Stat (Some h) q w")
  from Cons.prems st obtain info where r: "r = Ok info" and rest: "stats_succeed (Some h) qs w1"
    by (cases r) auto
  have w1: "w1 = emit (SftpStat h q) w"
    using sftp_Stat_Ok [OF st [unfolded r]] by auto
  show ?case
    using st r Cons.IH [OF rest] by (simp add: w1 emit_def)
qed

lemma no_files_Cons:
  "no_files fs (q # qs) = ((\<forall>b. map_of fs q \<noteq> Some (RFile b)) \<and> no_files fs qs)"
  by (auto simp: no_files_def split: option.splits rnode.splits)

lemma no_files_store_put: "no_files fs qs \<Longrightarrow> no_files (store_put q RDir fs) qs"
  by (induction qs) (auto simp: no_files_Cons map_of_store_put no_files_def)

lemma check_and_create_ok:
  "h \<in> live w \<Longrightarrow> faults w = (\<lambda>i. None) \<Longrightarrow> chained prev qs \<Longrightarrow>
   prev = [] \<or> map_of (remotefs w) prev = Some RDir \<Longrightarrow> no_files (remotefs w) qs \<Longrightarrow>
     check_and_create (Some h) qs w =
       (Ok (), w\<lparr>trace := trace w @ dir_calls h qs (dom (map_of (remotefs w))),
                 remotefs := with_dirs qs (remotefs w)\<rparr>)"
proof (induction qs arbitrary: prev w)
  case Nil
  show ?case by simp
next
  case (Cons q qs)
  have par: "parent_dir q = prev" and ch: "chained q qs" using Cons.prems(3) by simp_all
  have nf: "\<forall>b. map_of (remotefs w) q \<noteq> Some (RFile b)" and nfs: "no_files (remotefs w) qs"
    using Cons.prems(5) by (simp_all add: no_files_Cons)
  let ?w1 = "emit (SftpStat h q) w"
  show ?case
  proof (cases "map_of (remotefs w) q")
    case (Some node)
    then have dir: "map_of (remotefs w) q = Some RDir" using nf by (cases node) auto
    have st: "sftp_Stat (Some h) q w = (Ok (node_info (base_name q) RDir), ?w1)"
      using Cons.prems(1,2) dir by (simp add: sftp_Stat_def sftp_call_ok)
    have "check_and_create (Some h) qs ?w1 =
        (Ok (), ?w1\<lparr>trace := trace ?w1 @ dir_calls h qs (dom (map_of (remotefs ?w1))),
                     remotefs := with_dirs qs (remotefs ?w1)\<rparr>)"
      using Cons.prems(1,2) ch dir nfs by (intro Cons.IH [of _ q]) simp_all
    then show ?thesis using st dir by (simp add: emit_def domI)
  next
    case None
    have st: "sftp_Stat (Some h) q w = (Err (LibErr NotExist), ?w1)"
      using Cons.prems(1,2) None by (simp add: sftp_Stat_def sftp_call_ok)
    have pe: "parent_error (remotefs w) q = None"
      using par Cons.prems(4) by (auto simp: parent_error_def)
    let ?w2 = "(emit (SftpMkdir h q) ?w1)\<lparr>remotefs := store_put q RDir (remotefs w)\<rparr>"
    have mk: "sftp_Mkdir (Some h) q ?w1 = (Ok (), ?w2)"
      using Cons.prems(1,2) None pe by (simp add: sftp_Mkdir_def sftp_call_ok)
    have "check_and_create (Some h) qs ?w2 =
        (Ok (), ?w2\<lparr>trace := trace ?w2 @ dir_calls h qs (dom (map_of (remotefs ?w2))),
                     remotefs := with_dirs qs (remotefs ?w2)\<rparr>)"
      using Cons.prems(1,2) ch nfs
      by (intro Cons.IH [of _ q]) (simp_all add: map_of_store_put no_files_store_put)
    then show ?thesis using st mk None by (simp add: emit_def dom_store_put domIff)
  qed
qed

lemma dom_with_dirs: "dom (map_of (with_dirs ps fs)) = set ps \<union> dom (map_of fs)"
  by (induction ps arbitrary: fs) (auto simp: dom_store_put)

lemma prefixes_abc:
  "prefixes ''a/b/c'' = [''a'', ''a/b'', ''a/b/c'']"
  "prefixes ''/a//b/'' = [''a'', ''a/b'']"
  by (simp_all add: prefixes_def strings_Split_def filepath_Separator_def filepath_Join_def
      filepath_Clean_def clean_step_def Let_def)

text \<open>
  C8, as amended. CreateRemoteDirRecursive runs, over the accumulated prefixes of its path
  from left to right (empty components skipped), one existence check per prefix, which
  is a stat, followed by one creation call exactly when that stat does not succeed, be it
  because the prefix is missing or because the call failed; the first creation call that
  fails ends it with an error. When every existence check succeeds, the calls made are
  these checks alone. On a live session where no call fails, where each prefix has the
  one before it as its directory part and none is a regular file, it succeeds, a prefix
  is created exactly when it is not present at that moment, and afterwards every prefix
  is present. The prefixes of "a/b/c" are "a", "a/b", "a/b/c", checked (and, where the
  check does not succeed, created) in that order.
\<close>

theorem CreateRemoteDirRecursive_calls:
  assumes "sftpClient c = Some h"
  shows "CreateRemoteDirRecursive (Some c) remoteBasePath w =
           check_and_create (Some h) (prefixes remoteBasePath) w
    \<and> (stats_succeed (Some h) (prefixes remoteBasePath) w \<longrightarrow>
         CreateRemoteDirRecursive (Some c) remoteBasePath w =
           (Ok (), w\<lparr>trace := trace w @ map (SftpStat h) (prefixes remoteBasePath)\<rparr>))
    \<and> (h \<in> live w \<and> faults w = (\<lambda>i. None) \<and> chained [] (prefixes remoteBasePath) \<and>
       no_files (remotefs w) (prefixes remoteBasePath) \<longrightarrow>
         CreateRemoteDirRecursive (Some c) remoteBasePath w =
           (Ok (), w\<lparr>trace := trace w @
                        dir_calls h (prefixes remoteBasePath) (dom (map_of (remotefs w))),
                     remotefs := with_dirs (prefixes remoteBasePath) (remotefs w)\<rparr>)
         \<and> set (prefixes remoteBasePath) \<subseteq>
             dom (map_of (with_dirs (prefixes remoteBasePath) (remotefs w))))
    \<and> prefixes ''a/b/c'' = [''a'', ''a/b'', ''a/b/c'']
    \<and> prefixes ''/a//b/'' = [''a'', ''a/b'']
    \<and> dir_calls h [''a'', ''a/b'', ''a/b/c''] {''a'', ''a/b'', ''a/b/c''} =
         [SftpStat h ''a'', SftpStat h ''a/b'', SftpStat h ''a/b/c'']
    \<and> dir_calls h [''a'', ''a/b'', ''a/b/c''] {} =
         [SftpStat h ''a'', SftpMkdir h ''a'', SftpStat h ''a/b'', SftpMkdir h ''a/b'',
          SftpStat h ''a/b/c'', SftpMkdir h ''a/b/c'']"
proof -
  have r: "CreateRemoteDirRecursive (Some c) remoteBasePath w =
           check_and_create (Some h) (prefixes remoteBasePath) w"
    using CreateRemoteDirRecursive_loop_refines [of c _ "[]" w] assms
    by (simp add: CreateRemoteDirRecursive_def prefixes_def)
  have s: "CreateRemoteDirRecursive (Some c) remoteBasePath w =
           (Ok (), w\<lparr>trace := trace w @ map (SftpStat h) (prefixes remoteBasePath)\<rparr>)"
    if "stats_succeed (Some h) (prefixes remoteBasePath) w"
    using stats_succeed_run [OF that] r by simp
  have f: "CreateRemoteDirRecursive (Some c) remoteBasePath w =
           (Ok (), w\<lparr>trace := trace w @
                        dir_calls h (prefixes remoteBasePath) (dom (map_of (remotefs w))),
                     remotefs := with_dirs (prefixes remoteBasePath) (remotefs w)\<rparr>)"
    if "h \<in> live w" "faults w = (\<lambda>i. None)" "chained [] (prefixes remoteBasePath)"
       "no_files (remotefs w) (prefixes remoteBasePath)"
    using check_and_create_ok [OF that(1,2,3) _ that(4)] r by simp
  have d: "set (prefixes remoteBasePath) \<subseteq>
             dom (map_of (with_dirs (prefixes remoteBasePath) (remotefs w)))"
    by (simp add: dom_with_dirs)
  show ?thesis
    apply (intro conjI)
    subgoal by (rule r)
    subgoal using s by blast
    subgoal using f d by blast
    subgoal by (rule prefixes_abc(1))
    subgoal by (rule prefixes_abc(2))
    subgoal by simp
    subgoal by simp
    done
qed

text \<open>
  C8 as stated fails: with "a", "a/b" and "a/b/c" all present as directories, a stat of
  "a" that is refused makes the existence check answer false, and the creation call for
  "a" is issued (and fails, since "a" is there).
\<close>

theorem CreateRemoteDirRecursive_creates_existing:
  "CreateRemoteDirRecursive (Some connected_client) ''a/b/c'' dirs_present_world =
     (Err (ErrorfCreateDir ''a'' (Wrapf ''failed to create directory'' (LibErr OtherFailure))),
      dirs_present_world\<lparr>trace := [SftpStat 2 ''a'', SftpMkdir 2 ''a'']\<rparr>)
   \<and> map_of (remotefs dirs_present_world) ''a'' = Some RDir
   \<and> map_of (remotefs dirs_present_world) ''a/b'' = Some RDir
   \<and> map_of (remotefs dirs_present_world) ''a/b/c'' = Some RDir"
  by (simp add: CreateRemoteDirRecursive_def strings_Split_def filepath_Separator_def
      filepath_Join_def filepath_Clean_def clean_step_def FolderExists_def MakeDir_def
      sftp_Stat_def sftp_Mkdir_def sftp_call_def fault_now_def emit_def parent_error_def
      parent_dir_def connected_client_def dirs_present_world_def Let_def
      cong: eval_cong)

text \<open>
  C8 on "a/b/c": first with only "a" present, then again with all three present.
\<close>

theorem CreateRemoteDirRecursive_calls_witness:
  "CreateRemoteDirRecursive (Some connected_client) ''a/b/c'' mkdir_world =
     (Ok (), mkdir_world
        \<lparr>trace := [SftpStat 2 ''a'', SftpStat 2 ''a/b'', SftpMkdir 2 ''a/b'',
                   SftpStat 2 ''a/b/c'', SftpMkdir 2 ''a/b/c''],
         remotefs := [(''.'', RDir), (''a'', RDir), (''a/b'', RDir), (''a/b/c'', RDir)]\<rparr>)
   \<and> CreateRemoteDirRecursive (Some connected_client) ''a/b/c''
       (mkdir_world\<lparr>remotefs := [(''.'', RDir), (''a'', RDir), (''a/b'', RDir), (''a/b/c'', RDir)]\<rparr>) =
     (Ok (), mkdir_world
        \<lparr>trace := [SftpStat 2 ''a'', SftpStat 2 ''a/b'', SftpStat 2 ''a/b/c''],
         remotefs := [(''.'', RDir), (''a'', RDir), (''a/b'', RDir), (''a/b/c'', RDir)]\<rparr>)
   \<and> chained [] (prefixes ''a/b/c'')"
proof -
  have c: "sftpClient connected_client = Some 2" by (simp add: connected_client_def)
  have p: "prefixes ''a/b/c'' = [''a'', ''a/b'', ''a/b/c'']" by (rule prefixes_abc(1))
  have ch: "chained [] (prefixes ''a/b/c'')" by (simp add: p parent_dir_def)
  have l: "2 \<in> live mkdir_world \<and> faults mkdir_world = (\<lambda>i. None) \<and>
           chained [] (prefixes ''a/b/c'') \<and> no_files (remotefs mkdir_world) (prefixes ''a/b/c'')"
    using ch by (simp add: p mkdir_world_def no_files_def)
  let ?full = "mkdir_world\<lparr>remotefs := [(''.'', RDir), (''a'', RDir), (''a/b'', RDir), (''a/b/c'', RDir)]\<rparr>"
  have s: "stats_succeed (Some 2) (prefixes ''a/b/c'') ?full"
    by (simp add: p mkdir_world_def sftp_Stat_def sftp_call_def fault_now_def emit_def Let_def
        cong: eval_cong)
  note t1 = CreateRemoteDirRecursive_calls [OF c, of "''a/b/c''" mkdir_world]
  note t2 = CreateRemoteDirRecursive_calls [OF c, of "''a/b/c''" ?full]
  note a = conjunct1 [OF mp [OF conjunct1 [OF conjunct2 [OF conjunct2 [OF t1]]] l]]
  note b = mp [OF conjunct1 [OF conjunct2 [OF t2]] s]
  show ?thesis
    using a b ch by (simp add: p mkdir_world_def)
qed

subsection \<open>Depth-first order of a walk\<close>

lemma sftp_ReadDir_ok:
  assumes "h \<in> live w" "faults w = (\<lambda>i. None)" "listing (remotefs w) q = Some infos"
  shows "sftp_ReadDir (Some h) q w = (Ok infos, emit (SftpReadDir h q) w)"
  using assms
  by (auto simp: sftp_ReadDir_def sftp_call_ok listing_def split: option.splits rnode.splits)

lemma visits_simps [simp]:
  "visits [] = []"
  "visits (Visit p info # evs) = (p, info) # visits evs"
  "visits (SftpReadDir h q # evs) = visits evs"
  "visits (xs @ ys) = visits xs @ visits ys"
  by (simp_all add: visits_def)

lemma first_error_append:
  "first_error v (xs @ ys) = (case first_error v xs of None \<Rightarrow> first_error v ys | Some e \<Rightarrow> Some e)"
  by (induction xs) (auto split: option.splits)

lemma visited_until_append:
  "visited_until v (xs @ ys) =
     (case first_error v xs of None \<Rightarrow> xs @ visited_until v ys | Some e \<Rightarrow> visited_until v xs)"
  by (induction xs) (auto split: option.splits)

lemma visited_until_all: "first_error v xs = None \<Longrightarrow> visited_until v xs = xs"
  by (induction xs) (auto split: option.splits)

lemma kept_emit: "kept h w (emit e w)"
  by (simp add: kept_def)

lemma kept_trans: "kept h w w1 \<Longrightarrow> kept h w1 w2 \<Longrightarrow> kept h w w2"
  by (simp add: kept_def)

lemma bystander_kept:
  "bystander h walkFn \<Longrightarrow> walkFn p info w = (r, w1) \<Longrightarrow> kept h w w1"
  by (metis bystander_def snd_conv)

lemma bystander_quiet:
  "bystander h walkFn \<Longrightarrow> walkFn p info w = (r, w1) \<Longrightarrow>
     \<exists>evs. trace w1 = trace w @ evs \<and> visits evs = []"
  by (metis bystander_def quiet_def snd_conv)

lemma decides_fst:
  "decides v walkFn \<Longrightarrow> walkFn p info w = (r, w1) \<Longrightarrow>
     r = (case v p info of None \<Rightarrow> Ok () | Some e \<Rightarrow> Err e)"
  by (metis decides_def fst_conv)

lemma WalkFile_entries_walk_tree:
  assumes c: "sftpClient c = Some h" and bys: "bystander h walkFn"
  shows "h \<in> live w \<Longrightarrow> faults w = (\<lambda>i. None) \<Longrightarrow> served (remotefs w) p ts \<Longrightarrow> depth ts \<le> fuel \<Longrightarrow>
     WalkFile_entries fuel (Some c) p walkFn (map root_info ts) w =
       Some (walk_tree h walkFn p ts w) \<and>
     kept h w (snd (walk_tree h walkFn p ts w))"
proof (induction p ts arbitrary: fuel w rule: preorder.induct)
  case (1 p)
  show ?case by (simp add: kept_def)
next
  case (2 p info cs ts)
  let ?full = "p @ ''/'' @ fi_Name info"
  let ?q = "normalize ?full"
  let ?w0 = "emit (Visit ?full info) w"
  obtain r w1 where vis: "walkFn ?full info ?w0 = (r, w1)" by (cases "walkFn ?full info ?w0")
  have k1: "kept h w w1"
    using kept_trans [OF kept_emit bystander_kept [OF bys vis]] .
  have live1: "h \<in> live w1" "faults w1 = (\<lambda>i. None)" and fs1: "remotefs w1 = remotefs w"
    using k1 "2.prems"(1,2) by (simp_all add: kept_def)
  have srv_ts: "served (remotefs w1) p ts" using "2.prems"(3) fs1 by simp
  have d_ts: "depth ts \<le> fuel" using "2.prems"(4) by simp
  have unf: "WalkFile_entries fuel (Some c) p walkFn (map root_info (Node info cs # ts)) w =
      (case r of
         Err err \<Rightarrow> Some (Err err, w1)
       | Panic \<Rightarrow> Some (Panic, w1)
       | Ok u \<Rightarrow>
           (if fi_IsDir info then
              (case WalkFile fuel (Some c) ?full walkFn w1 of
                 None \<Rightarrow> None
               | Some (Err err, w2) \<Rightarrow> Some (Err err, w2)
               | Some (Panic, w2) \<Rightarrow> Some (Panic, w2)
               | Some (Ok u2, w2) \<Rightarrow> WalkFile_entries fuel (Some c) p walkFn (map root_info ts) w2)
            else WalkFile_entries fuel (Some c) p walkFn (map root_info ts) w1))"
    using vis by (cases r) (simp_all add: Let_def)
  have unt: "walk_tree h walkFn p (Node info cs # ts) w =
      (case r of
         Err e \<Rightarrow> (Err e, w1)
       | Panic \<Rightarrow> (Panic, w1)
       | Ok u \<Rightarrow>
           (if fi_IsDir info then
              (case walk_tree h walkFn ?q cs (emit (SftpReadDir h ?q) w1) of
                 (Err e, w2) \<Rightarrow> (Err e, w2)
               | (Panic, w2) \<Rightarrow> (Panic, w2)
               | (Ok u2, w2) \<Rightarrow> walk_tree h walkFn p ts w2)
            else walk_tree h walkFn p ts w1))"
    using vis by (cases r) simp_all
  show ?case
  proof (cases r)
    case (Err e)
    show ?thesis unfolding unf unt using Err k1 by simp
  next
    case Panic
    show ?thesis unfolding unf unt using Panic k1 by simp
  next
    case (Ok u)
    show ?thesis
    proof (cases "fi_IsDir info")
      case False
      have ih: "WalkFile_entries fuel (Some c) p walkFn (map root_info ts) w1 =
                  Some (walk_tree h walkFn p ts w1) \<and>
                kept h w1 (snd (walk_tree h walkFn p ts w1))"
        using "2.IH"(2) [OF live1 srv_ts d_ts] .
      show ?thesis unfolding unf unt using Ok False ih kept_trans [OF k1] by simp
    next
      case True
      then obtain fuel' where fuel: "fuel = Suc fuel'" and d_cs: "depth cs \<le> fuel'"
        using "2.prems"(4) by (cases fuel) auto
      have lst: "listing (remotefs w1) ?q = Some (map root_info cs)"
        and srv_cs: "served (remotefs w1) ?q cs"
        using "2.prems"(3) True fs1 by simp_all
      let ?w2 = "emit (SftpReadDir h ?q) w1"
      have rd: "sftp_ReadDir (Some h) ?q w1 = (Ok (map root_info cs), ?w2)"
        using sftp_ReadDir_ok [OF live1 lst] .
      have live2: "h \<in> live ?w2" "faults ?w2 = (\<lambda>i. None)" "served (remotefs ?w2) ?q cs"
        using live1 srv_cs by simp_all
      obtain r2 w3 where sub_t: "walk_tree h walkFn ?q cs ?w2 = (r2, w3)"
        by (cases "walk_tree h walkFn ?q cs ?w2")
      have ih1: "WalkFile_entries fuel' (Some c) ?q walkFn (map root_info cs) ?w2 = Some (r2, w3)"
        and k3': "kept h ?w2 w3"
        using "2.IH"(1) [OF True live2 d_cs] sub_t by simp_all
      have k3: "kept h w w3"
        using kept_trans [OF kept_trans [OF k1 kept_emit] k3'] .
      have sub: "WalkFile fuel (Some c) ?full walkFn w1 = Some (r2, w3)"
        using rd ih1 c by (simp add: fuel Let_def)
      show ?thesis
      proof (cases r2)
        case e: (Err e)
        show ?thesis unfolding unf unt using Ok True sub sub_t e k3 by simp
      next
        case p: Panic
        show ?thesis unfolding unf unt using Ok True sub sub_t p k3 by simp
      next
        case o: (Ok u2)
        have live3: "h \<in> live w3" "faults w3 = (\<lambda>i. None)" "served (remotefs w3) p ts"
          using k3 "2.prems"(1,2,3) by (simp_all add: kept_def)
        have ih2: "WalkFile_entries fuel (Some c) p walkFn (map root_info ts) w3 =
                  Some (walk_tree h walkFn p ts w3) \<and>
                kept h w3 (snd (walk_tree h walkFn p ts w3))"
          using "2.IH"(2) [OF live3 d_ts] .
        show ?thesis unfolding unf unt using Ok True sub sub_t o ih2 kept_trans [OF k3] by simp
      qed
    qed
  qed
qed

lemma walk_tree_order:
  assumes bys: "bystander h walkFn" and dc: "decides v walkFn"
  shows "\<exists>evs. walk_tree h walkFn p ts w =
             (walk_result v (preorder p ts), snd (walk_tree h walkFn p ts w)) \<and>
           trace (snd (walk_tree h walkFn p ts w)) = trace w @ evs \<and>
           visits evs = visited_until v (preorder p ts)"
proof (induction p ts arbitrary: w rule: preorder.induct)
  case (1 p)
  show ?case by (simp add: walk_result_def)
next
  case (2 p info cs ts)
  let ?full = "p @ ''/'' @ fi_Name info"
  let ?q = "normalize ?full"
  let ?w0 = "emit (Visit ?full info) w"
  obtain r w1 where vis: "walkFn ?full info ?w0 = (r, w1)" by (cases "walkFn ?full info ?w0")
  obtain evs0 where evs0: "trace w1 = trace ?w0 @ evs0" "visits evs0 = []"
    using bystander_quiet [OF bys vis] by blast
  have tr1: "trace w1 = trace w @ Visit ?full info # evs0"
    using evs0(1) by (simp add: emit_def)
  have r: "r = (case v ?full info of None \<Rightarrow> Ok () | Some e \<Rightarrow> Err e)"
    using decides_fst [OF dc vis] .
  have unt: "walk_tree h walkFn p (Node info cs # ts) w =
      (case r of
         Err e \<Rightarrow> (Err e, w1)
       | Panic \<Rightarrow> (Panic, w1)
       | Ok u \<Rightarrow>
           (if fi_IsDir info then
              (case walk_tree h walkFn ?q cs (emit (SftpReadDir h ?q) w1) of
                 (Err e, w2) \<Rightarrow> (Err e, w2)
               | (Panic, w2) \<Rightarrow> (Panic, w2)
               | (Ok u2, w2) \<Rightarrow> walk_tree h walkFn p ts w2)
            else walk_tree h walkFn p ts w1))"
    using vis by (cases r) simp_all
  show ?case
  proof (cases "v ?full info")
    case (Some e)
    have wt: "walk_tree h walkFn p (Node info cs # ts) w = (Err e, w1)"
      unfolding unt using r Some by simp
    have "walk_result v (preorder p (Node info cs # ts)) = Err e"
      using Some by (simp add: walk_result_def)
    moreover have "visited_until v (preorder p (Node info cs # ts)) = [(?full, info)]"
      using Some by simp
    ultimately show ?thesis
      unfolding wt using tr1 evs0(2)
      by (intro exI [of _ "Visit ?full info # evs0"]) simp
  next
    case None
    then have rok: "r = Ok ()" using r by simp
    show ?thesis
    proof (cases "fi_IsDir info")
      case False
      have wt: "walk_tree h walkFn p (Node info cs # ts) w = walk_tree h walkFn p ts w1"
        unfolding unt using rok False by simp
      obtain evs where evs:
        "walk_tree h walkFn p ts w1 = (walk_result v (preorder p ts), snd (walk_tree h walkFn p ts w1))"
        "trace (snd (walk_tree h walkFn p ts w1)) = trace w1 @ evs"
        "visits evs = visited_until v (preorder p ts)"
        using "2.IH"(2) [of w1] by blast
      have "walk_result v (preorder p (Node info cs # ts)) = walk_result v (preorder p ts)"
        using None False by (simp add: walk_result_def)
      moreover have "visited_until v (preorder p (Node info cs # ts)) =
          (?full, info) # visited_until v (preorder p ts)"
        using None False by simp
      ultimately show ?thesis
        unfolding wt using evs tr1 evs0(2)
        by (intro exI [of _ "Visit ?full info # evs0 @ evs"]) simp
    next
      case True
      let ?w2 = "emit (SftpReadDir h ?q) w1"
      obtain evs1 where evs1:
        "walk_tree h walkFn ?q cs ?w2 = (walk_result v (preorder ?q cs), snd (walk_tree h walkFn ?q cs ?w2))"
        "trace (snd (walk_tree h walkFn ?q cs ?w2)) = trace ?w2 @ evs1"
        "visits evs1 = visited_until v (preorder ?q cs)"
        using "2.IH"(1) [OF True, of ?w2] by blast
      define w3 where "w3 = snd (walk_tree h walkFn ?q cs ?w2)"
      have sub: "walk_tree h walkFn ?q cs ?w2 = (walk_result v (preorder ?q cs), w3)"
        using evs1(1) by (simp add: w3_def)
      have tr3: "trace w3 = trace w @ Visit ?full info # evs0 @ SftpReadDir h ?q # evs1"
        using evs1(2) tr1 by (simp add: w3_def emit_def)
      show ?thesis
      proof (cases "first_error v (preorder ?q cs)")
        case (Some e)
        have wt: "walk_tree h walkFn p (Node info cs # ts) w = (Err e, w3)"
          unfolding unt using rok True sub Some by (simp add: walk_result_def)
        have "walk_result v (preorder p (Node info cs # ts)) = Err e"
          using None True Some by (simp add: walk_result_def first_error_append)
        moreover have "visited_until v (preorder p (Node info cs # ts)) =
            (?full, info) # visited_until v (preorder ?q cs)"
          using None True Some by (simp add: visited_until_append)
        ultimately show ?thesis
          unfolding wt using tr3 evs0(2) evs1(3)
          by (intro exI [of _ "Visit ?full info # evs0 @ SftpReadDir h ?q # evs1"]) simp
      next
        case noerr: None
        have wt: "walk_tree h walkFn p (Node info cs # ts) w = walk_tree h walkFn p ts w3"
          unfolding unt using rok True sub noerr by (simp add: walk_result_def)
        obtain evs2 where evs2:
          "walk_tree h walkFn p ts w3 = (walk_result v (preorder p ts), snd (walk_tree h walkFn p ts w3))"
          "trace (snd (walk_tree h walkFn p ts w3)) = trace w3 @ evs2"
          "visits evs2 = visited_until v (preorder p ts)"
          using "2.IH"(2) [of w3] by blast
        have "walk_result v (preorder p (Node info cs # ts)) = walk_result v (preorder p ts)"
          using None True noerr by (simp add: walk_result_def first_error_append)
        moreover have "visited_until v (preorder p (Node info cs # ts)) =
            (?full, info) # preorder ?q cs @ visited_until v (preorder p ts)"
          using None True noerr by (simp add: visited_until_append)
        ultimately show ?thesis
          unfolding wt using tr3 evs0(2) evs1(3) evs2 visited_until_all [OF noerr]
          by (intro exI [of _ "Visit ?full info # evs0 @ SftpReadDir h ?q # evs1 @ evs2"]) simp
      qed
    qed
  qed
qed

text \<open>
  C9, as amended. A path of two or more characters loses one leading slash before the
  first listing; the path "/" and a path that does not begin with a slash are listed
  as they are. Whenever the remote store serves a tree at the normalized path, the
  session is live, no call fails and the visitor leaves the remote store and the session
  as they are, WalkFile with enough fuel for the depth of the tree returns what the walk
  of the tree returns after the first listing call: each entry is visited with its
  joined path, a directory is listed and everything below it is walked before its next
  sibling, and the first answer of the visitor other than nil ends the walk there. When
  the visitor's answer depends on the path and the entry only, the entries visited are
  those of the tree in depth-first order up to and including the first one that the
  visitor rejects; that error is then the result of the walk and no later entry is
  visited. Without a visitor error the walk visits the whole tree and succeeds.
\<close>

theorem WalkFile_depth_first:
  assumes c: "sftpClient c = Some h" and l: "h \<in> live w" "faults w = (\<lambda>i. None)"
      and lst: "listing (remotefs w) (normalize remotePath) = Some (map root_info ts)"
      and srv: "served (remotefs w) (normalize remotePath) ts"
      and dep: "depth ts < fuel"
      and bys: "bystander h walkFn"
  shows "WalkFile fuel (Some c) remotePath walkFn w =
           Some (walk_tree h walkFn (normalize remotePath) ts
                   (emit (SftpReadDir h (normalize remotePath)) w))
         \<and> (decides v walkFn \<longrightarrow>
              (\<exists>evs w'. WalkFile fuel (Some c) remotePath walkFn w =
                    Some (walk_result v (preorder (normalize remotePath) ts), w') \<and>
                  trace w' = trace w @ SftpReadDir h (normalize remotePath) # evs \<and>
                  visits evs = visited_until v (preorder (normalize remotePath) ts) \<and>
                  remotefs w' = remotefs w))
         \<and> (\<forall>x xs. normalize (CHR ''/'' # x # xs) = x # xs)
         \<and> normalize ''/'' = ''/''
         \<and> (\<forall>x xs. x \<noteq> CHR ''/'' \<longrightarrow> normalize (x # xs) = x # xs)"
proof -
  let ?q = "normalize remotePath"
  let ?w1 = "emit (SftpReadDir h ?q) w"
  obtain fuel' where fuel: "fuel = Suc fuel'" and d: "depth ts \<le> fuel'"
    using dep by (cases fuel) auto
  have rd: "sftp_ReadDir (Some h) ?q w = (Ok (map root_info ts), ?w1)"
    using sftp_ReadDir_ok [OF l lst] .
  have l1: "h \<in> live ?w1" "faults ?w1 = (\<lambda>i. None)" "served (remotefs ?w1) ?q ts"
    using l srv by simp_all
  note ent = WalkFile_entries_walk_tree [OF c bys l1 d]
  have a: "WalkFile fuel (Some c) remotePath walkFn w = Some (walk_tree h walkFn ?q ts ?w1)"
    using rd ent c by (simp add: fuel Let_def)
  have b: "\<exists>evs w'. WalkFile fuel (Some c) remotePath walkFn w =
                    Some (walk_result v (preorder ?q ts), w') \<and>
                  trace w' = trace w @ SftpReadDir h ?q # evs \<and>
                  visits evs = visited_until v (preorder ?q ts) \<and>
                  remotefs w' = remotefs w"
    if dc: "decides v walkFn"
  proof -
    obtain evs where evs:
      "walk_tree h walkFn ?q ts ?w1 =
         (walk_result v (preorder ?q ts), snd (walk_tree h walkFn ?q ts ?w1))"
      "trace (snd (walk_tree h walkFn ?q ts ?w1)) = trace ?w1 @ evs"
      "visits evs = visited_until v (preorder ?q ts)"
      using walk_tree_order [OF bys dc, of ?q ts ?w1] by blast
    have "remotefs (snd (walk_tree h walkFn ?q ts ?w1)) = remotefs w"
      using ent by (simp add: kept_def)
    moreover have "trace (snd (walk_tree h walkFn ?q ts ?w1)) = trace w @ SftpReadDir h ?q # evs"
      using evs(2) by (simp add: emit_def)
    moreover have "WalkFile fuel (Some c) remotePath walkFn w =
        Some (walk_result v (preorder ?q ts), snd (walk_tree h walkFn ?q ts ?w1))"
      unfolding a using evs(1) by simp
    ultimately show ?thesis using evs(3) by blast
  qed
  show ?thesis
    apply (intro conjI)
    subgoal by (rule a)
    subgoal using b by blast
    subgoal by (simp add: normalize_def)
    subgoal by (simp add: normalize_def)
    subgoal by (simp add: normalize_def)
    done
qed

text \<open>
  C9 as stated fails: WalkFile on "/" strips nothing. It lists "/" and visits the file
  there under the path "//f".
\<close>

theorem WalkFile_root_keeps_slash:
  "WalkFile 1 (Some connected_client) ''/'' (visitor_of accept_all) slash_world =
     Some (Ok (), slash_world
        \<lparr>trace := [SftpReadDir 2 ''/'',
                   Visit ''//f'' \<lparr>fi_Name = ''f'', fi_Size = 1, fi_IsDir = False\<rparr>]\<rparr>)
   \<and> normalize ''/'' = ''/''"
  by (simp add: normalize_def sftp_ReadDir_def sftp_call_def fault_now_def emit_def
      children_def child_entry_def node_info_def visitor_of_def accept_all_def
      connected_client_def slash_world_def Let_def
      cong: eval_cong)

text \<open>
  C9 on the tree \<^verbatim>\<open>/root/{f1, sub/{f2}}\<close>: WalkFile on "/root" lists "root", visits
  "root/f1", "root/sub" and, after listing "root/sub", "root/sub/f2", here with a visitor
  that looks up each path locally; with a visitor that rejects "root/sub" the walk stops
  there with the visitor's error.
\<close>

theorem WalkFile_depth_first_witness:
  "WalkFile 2 (Some connected_client) ''/root'' local_stat_visitor tree_world =
     Some (Ok (), tree_world
        \<lparr>trace := [SftpReadDir 2 ''root'',
                   Visit ''root/f1'' f1_entry, OsStat ''root/f1'',
                   Visit ''root/sub'' sub_entry, OsStat ''root/sub'',
                   SftpReadDir 2 ''root/sub'',
                   Visit ''root/sub/f2'' f2_entry, OsStat ''root/sub/f2'']\<rparr>)
   \<and> WalkFile 2 (Some connected_client) ''/root'' (visitor_of reject_sub) tree_world =
     Some (Err (Errorf ''stop''), tree_world
        \<lparr>trace := [SftpReadDir 2 ''root'', Visit ''root/f1'' f1_entry,
                   Visit ''root/sub'' sub_entry]\<rparr>)
   \<and> preorder ''root'' root_tree =
       [(''root/f1'', f1_entry), (''root/sub'', sub_entry), (''root/sub/f2'', f2_entry)]
   \<and> visited_until reject_sub (preorder ''root'' root_tree) =
       [(''root/f1'', f1_entry), (''root/sub'', sub_entry)]
   \<and> bystander 2 local_stat_visitor \<and> decides accept_all local_stat_visitor
   \<and> bystander 2 (visitor_of reject_sub) \<and> decides reject_sub (visitor_of reject_sub)"
proof -
  have n: "normalize ''/root'' = ''root''" "normalize ''root/sub'' = ''root/sub''"
    by (simp_all add: normalize_def)
  have c: "sftpClient connected_client = Some 2" by (simp add: connected_client_def)
  have l: "2 \<in> live tree_world" "faults tree_world = (\<lambda>i. None)"
    by (simp_all add: tree_world_def)
  have lst: "listing (remotefs tree_world) (normalize ''/root'') = Some (map root_info root_tree)"
    by (simp add: n listing_def children_def child_entry_def node_info_def tree_world_def
        root_tree_def f1_entry_def sub_entry_def)
  have srv: "served (remotefs tree_world) (normalize ''/root'') root_tree"
    by (simp add: n listing_def children_def child_entry_def node_info_def tree_world_def
        root_tree_def f1_entry_def sub_entry_def f2_entry_def)
  have dep: "depth root_tree < 2"
    by (simp add: root_tree_def sub_entry_def f1_entry_def f2_entry_def)
  have pre: "preorder ''root'' root_tree =
       [(''root/f1'', f1_entry), (''root/sub'', sub_entry), (''root/sub/f2'', f2_entry)]"
    by (simp add: n root_tree_def sub_entry_def f1_entry_def f2_entry_def)
  have b1: "bystander 2 local_stat_visitor"
    by (simp add: bystander_def kept_def quiet_def local_stat_visitor_def os_Stat_def Let_def
        added_def visits_def emit_def split: option.split)
  have d1: "decides accept_all local_stat_visitor"
    by (simp add: decides_def local_stat_visitor_def accept_all_def split: prod.split)
  have b2: "bystander 2 (visitor_of reject_sub)"
    by (simp add: bystander_def kept_def quiet_def visitor_of_def added_def visits_def)
  have d2: "decides reject_sub (visitor_of reject_sub)"
    by (simp add: decides_def visitor_of_def)
  have "\<exists>evs w'. WalkFile 2 (Some connected_client) ''/root'' local_stat_visitor tree_world =
           Some (Ok (), w') \<and> trace w' = SftpReadDir 2 ''root'' # evs \<and>
         visits evs = [(''root/f1'', f1_entry), (''root/sub'', sub_entry), (''root/sub/f2'', f2_entry)] \<and>
         remotefs w' = remotefs tree_world"
    using mp [OF conjunct1 [OF conjunct2 [OF WalkFile_depth_first [OF c l lst srv dep b1, of accept_all]]] d1]
    by (simp add: n pre walk_result_def accept_all_def tree_world_def)
  moreover have "\<exists>evs w'. WalkFile 2 (Some connected_client) ''/root'' (visitor_of reject_sub) tree_world =
           Some (Err (Errorf ''stop''), w') \<and> trace w' = SftpReadDir 2 ''root'' # evs \<and>
         visits evs = [(''root/f1'', f1_entry), (''root/sub'', sub_entry)] \<and>
         remotefs w' = remotefs tree_world"
    using mp [OF conjunct1 [OF conjunct2 [OF WalkFile_depth_first [OF c l lst srv dep b2, of reject_sub]]] d2]
    by (simp add: n pre walk_result_def reject_sub_def tree_world_def)
  moreover have "WalkFile 2 (Some connected_client) ''/root'' local_stat_visitor tree_world =
     Some (Ok (), tree_world
        \<lparr>trace := [SftpReadDir 2 ''root'',
                   Visit ''root/f1'' f1_entry, OsStat ''root/f1'',
                   Visit ''root/sub'' sub_entry, OsStat ''root/sub'',
                   SftpReadDir 2 ''root/sub'',
                   Visit ''root/sub/f2'' f2_entry, OsStat ''root/sub/f2'']\<rparr>)"
    by (simp add: numeral_2_eq_2 n sftp_ReadDir_def sftp_call_def fault_now_def emit_def
        children_def child_entry_def node_info_def local_stat_visitor_def os_Stat_def
        connected_client_def tree_world_def f1_entry_def sub_entry_def f2_entry_def Let_def
        cong: eval_cong)
  moreover have "WalkFile 2 (Some connected_client) ''/root'' (visitor_of reject_sub) tree_world =
     Some (Err (Errorf ''stop''), tree_world
        \<lparr>trace := [SftpReadDir 2 ''root'', Visit ''root/f1'' f1_entry,
                   Visit ''root/sub'' sub_entry]\<rparr>)"
    by (simp add: numeral_2_eq_2 n sftp_ReadDir_def sftp_call_def fault_now_def emit_def
        children_def child_entry_def node_info_def visitor_of_def reject_sub_def
        connected_client_def tree_world_def f1_entry_def sub_entry_def f2_entry_def Let_def
        cong: eval_cong)
  moreover have "visited_until reject_sub (preorder ''root'' root_tree) =
       [(''root/f1'', f1_entry), (''root/sub'', sub_entry)]"
    by (simp add: pre reject_sub_def)
  ultimately show ?thesis using pre b1 d1 b2 d2 by blast
qed

subsection \<open>Downloading twice\<close>


lemma fault_now_none [simp]: "faults w = (\<lambda>i. None) \<Longrightarrow> fault_now w = None"
  by (simp add: fault_now_def)







lemmas download_defs = DownloadFile_def DownloadFile_copy_def DownloadFile_retry.simps
  ensureConnectedWithRetries_def ensureConnectedWithRetries_loop.simps



subsection \<open>Retrying a download across a reconnection\<close>

text \<open>
  C3. The retry of DownloadFile is a new copy on the two file handles opened before the
  loop: the remote file is neither re-opened nor sought again. In the download of the
  six bytes of "r" below, the first copy breaks after two bytes and the liveness probe
  that follows the sleep fails too, so that ensureConnectedWithRetries closes the session
  (handles 1 and 2) and opens a new one (handles 3 and 4). The second and the third copy
  still read through the remote file of the closed handle 2 and fail at once, and
  DownloadFile ends with "failed to copy file to local after 3 retries", the local file
  holding the first two bytes only, although the new session is live. When the session
  survives the broken copy, the second copy goes on where the first one stopped and
  completes the file.
\<close>

theorem DownloadFile_retry_after_reconnect:
  "DownloadFile (Some connected_client) ''r'' ''l'' reconnect_world =
     (Err (Wrapf ''failed to copy file to local after 3 retries'' (LibErr OtherFailure)),
      Some (connected_client\<lparr>sshClient := Some 3, sftpClient := Some 4\<rparr>),
      reconnect_world
        \<lparr>trace := [SftpReadDir 2 ''.'', SftpStat 2 ''r'', OsStat ''l'', SftpOpen 2 ''r'',
                   SftpSeek ''r'' 0, OsCreate ''l'', CopyToLocal ''r'' ''l'', Sleep 5,
                   SftpReadDir 2 ''.'', SftpClose 2, SshClose 1, SshDial ''h:22'' dial_config,
                   SftpNewClient 3, CopyToLocal ''r'' ''l'', Sleep 5, SftpReadDir 4 ''.'',
                   CopyToLocal ''r'' ''l'', OsClose ''l'', SftpFileClose ''r''],
         localfs := [''l'' \<mapsto> ''ab''], live := {3, 4}, next_handle := 5\<rparr>)
   \<and> map_of (remotefs reconnect_world) ''r'' = Some (RFile ''abcdef'')
   \<and> DownloadFile (Some connected_client) ''r'' ''l'' copy_breaks_world =
     (Ok (), Some connected_client,
      copy_breaks_world
        \<lparr>trace := [SftpReadDir 2 ''.'', SftpStat 2 ''r'', OsStat ''l'', SftpOpen 2 ''r'',
                   SftpSeek ''r'' 0, OsCreate ''l'', CopyToLocal ''r'' ''l'', Sleep 5,
                   SftpReadDir 2 ''.'', CopyToLocal ''r'' ''l'', OsClose ''l'', SftpFileClose ''r''],
         localfs := [''l'' \<mapsto> ''abcdef'']\<rparr>)"
proof -
  have a: "DownloadFile (Some connected_client) ''r'' ''l'' reconnect_world =
     (Err (Wrapf ''failed to copy file to local after 3 retries'' (LibErr OtherFailure)),
      Some (connected_client\<lparr>sshClient := Some 3, sftpClient := Some 4\<rparr>),
      reconnect_world
        \<lparr>trace := [SftpReadDir 2 ''.'', SftpStat 2 ''r'', OsStat ''l'', SftpOpen 2 ''r'',
                   SftpSeek ''r'' 0, OsCreate ''l'', CopyToLocal ''r'' ''l'', Sleep 5,
                   SftpReadDir 2 ''.'', SftpClose 2, SshClose 1, SshDial ''h:22'' dial_config,
                   SftpNewClient 3, CopyToLocal ''r'' ''l'', Sleep 5, SftpReadDir 4 ''.'',
                   CopyToLocal ''r'' ''l'', OsClose ''l'', SftpFileClose ''r''],
         localfs := [''l'' \<mapsto> ''ab''], live := {3, 4}, next_handle := 5\<rparr>)"
    by (simp add: download_defs conn_defs prim_defs reconnect_world_def connected_client_def
        params0_def dial_config_def Let_def insert_Diff_if insert_commute
      cong: eval_cong)
  have b: "map_of (remotefs reconnect_world) ''r'' = Some (RFile ''abcdef'')"
    by (simp add: reconnect_world_def)
  have c: "DownloadFile (Some connected_client) ''r'' ''l'' copy_breaks_world =
     (Ok (), Some connected_client,
      copy_breaks_world
        \<lparr>trace := [SftpReadDir 2 ''.'', SftpStat 2 ''r'', OsStat ''l'', SftpOpen 2 ''r'',
                   SftpSeek ''r'' 0, OsCreate ''l'', CopyToLocal ''r'' ''l'', Sleep 5,
                   SftpReadDir 2 ''.'', CopyToLocal ''r'' ''l'', OsClose ''l'', SftpFileClose ''r''],
         localfs := [''l'' \<mapsto> ''abcdef'']\<rparr>)"
    by (simp add: download_defs conn_defs prim_defs copy_breaks_world_def connected_client_def
        params0_def Let_def
      cong: eval_cong)
  show ?thesis using a b c by (intro conjI)
qed

end
